theory Spec2Isabelle
  imports
    Complex_Main
    "HOL-Library.Sublist"
    "HOL-Library.Multiset"
    "HOL-Library.Char_ord"
    "HOL-Library.List_Lexorder"
    "HOL-Library.Log_Nat"
begin

section \<open>JavaScript values and built-ins used by the pages\<close>

text \<open>
  A TypeScript \<open>number\<close> that arrives in a JSON body is a finite number; it is modelled
  as a rational, on which \<open>===\<close>, \<open><\<close> and \<open>>\<close> are the usual equality and order.
  A \<open>string\<close> is a list of characters, taken to be ASCII text; \<open><\<close> on strings is the
  lexicographic order on character codes, where a proper prefix is smaller.
\<close>

type_synonym number = rat

text \<open>
  \<open>String.prototype.toLowerCase\<close>: the letters A to Z become a to z, every other
  ASCII character stays.
\<close>

definition toLowerCaseChar :: "char \<Rightarrow> char" where
  "toLowerCaseChar c =
     (if CHR ''A'' \<le> c \<and> c \<le> CHR ''Z'' then char_of (of_char c + (32::nat)) else c)"

definition toLowerCase :: "string \<Rightarrow> string" where
  "toLowerCase s = map toLowerCaseChar s"

text \<open>\<open>s.includes(t)\<close>: \<open>t\<close> occurs in \<open>s\<close> as a contiguous run.\<close>

fun includes_str :: "string \<Rightarrow> string \<Rightarrow> bool" where
  "includes_str [] t = (t = [])"
| "includes_str (c # s) t = (prefix t (c # s) \<or> includes_str s t)"

text \<open>\<open>s.split(sep)\<close> for a one-character separator.\<close>

fun split :: "char \<Rightarrow> string \<Rightarrow> string list" where
  "split sep [] = [[]]"
| "split sep (c # cs) =
     (if c = sep then [] # split sep cs
      else (case split sep cs of
              [] \<Rightarrow> [[c]]
            | w # ws \<Rightarrow> (c # w) # ws))"









definition digitChar :: "nat \<Rightarrow> char" where
  "digitChar d = char_of (48 + d)"

fun showNat :: "nat \<Rightarrow> string" where
  "showNat n = (if n < 10 then [digitChar n] else showNat (n div 10) @ [digitChar (n mod 10)])"

declare showNat.simps [simp del]

text \<open>An integer spliced into a template literal.\<close>

definition showInt :: "int \<Rightarrow> string" where
  "showInt i = (if i < 0 then CHR ''-'' # showNat (nat (- i)) else showNat (nat i))"

text \<open>
  \<open>Number.prototype.toString\<close> on whole numbers of ordinary size, which are rendered as
  their decimal digits.
\<close>

definition wholeNumberToString :: "number \<Rightarrow> string" where
  "wholeNumberToString a = showInt \<lfloor>a\<rfloor>"

section \<open>Entities\<close>

text \<open>
  The pages declare their own views of the records the backend serves; the widest
  declaration of each entity is modelled, with the field names prefixed by the entity
  (\<open>m_\<close> member, \<open>t_\<close> trainer, \<open>c_\<close> class, \<open>p_\<close> payment). The form data of an entity
  is the same shape with an optional id (\<open>Omit<Member, 'id'> & { id?: number }\<close>), so
  the record is polymorphic in the type of the id.
\<close>

record 'i MemberShape =
  m_id :: 'i
  m_name :: string
  m_email :: string
  m_phone :: string
  m_joinDate :: string
  m_membershipType :: string
  m_membershipStatus :: string
  m_membershipEnd :: string
  m_emergencyContact :: string
  m_age :: number
  m_gender :: string
  m_goals :: string

type_synonym Member = "number MemberShape"
type_synonym MemberFormData = "number option MemberShape"

record 'i TrainerShape =
  t_id :: 'i
  t_name :: string
  t_email :: string
  t_phone :: string
  t_hireDate :: string
  t_specialties :: "string list"
  t_certifications :: "string list"
  t_bio :: string
  t_schedule :: string
  t_imageUrl :: string

type_synonym Trainer = "number TrainerShape"
type_synonym TrainerFormData = "number option TrainerShape"

record ClassSchedule =
  c_id :: number
  c_name :: string
  c_trainer :: number
  c_timeStart :: string
  c_timeEnd :: string
  c_days :: "string list"
  c_capacity :: number
  c_enrolled :: number
  c_location :: string
  c_description :: string

record Payment =
  p_id :: number
  p_memberId :: number
  p_amount :: number
  p_date :: string
  p_type :: string
  p_status :: string
  p_method :: string

section \<open>The backend and the notifications\<close>

text \<open>
  An awaited REST call (or a \<open>Promise.all\<close> of calls, which rejects as soon as one call
  rejects) either rejects, and control passes to the \<open>catch\<close> block, or resolves with
  the response's \<open>data\<close>. A handler takes that outcome as an argument and returns the new
  page state together with the trace of what it did: the requests it sent, the toasts it
  raised and the lines it wrote to the console, in order.
\<close>

datatype 'a response = Rejected | Resolved 'a

datatype 'b request =
    GET string
  | POST string 'b
  | PUT string "number option" 'b
  | DELETE string number

datatype 'b effect =
    Api "'b request"
  | ToastSuccess string
  | ToastError string
  | ConsoleError string

fun isApi :: "'b effect \<Rightarrow> bool" where
  "isApi (Api r) = True"
| "isApi e = False"

fun isToastError :: "'b effect \<Rightarrow> bool" where
  "isToastError (ToastError m) = True"
| "isToastError e = False"

section \<open>Members page\<close>

record MembersState =
  mem_members :: "Member list"
  mem_filteredMembers :: "Member list"
  mem_isLoading :: bool
  mem_searchTerm :: string
  mem_statusFilter :: string
  mem_showModal :: bool
  mem_memberForm :: MemberFormData
  mem_isEditing :: bool

text \<open>
  \<open>emptyMemberForm\<close> is computed once, when the module loads, from the clock: \<open>today\<close> and
  \<open>in30days\<close> are the two ISO dates it reads.
\<close>

definition emptyMemberForm :: "string \<Rightarrow> string \<Rightarrow> MemberFormData" where
  "emptyMemberForm today in30days =
     \<lparr>m_id = None, m_name = [], m_email = [], m_phone = [], m_joinDate = today,
      m_membershipType = ''Standard'', m_membershipStatus = ''Active'',
      m_membershipEnd = in30days, m_emergencyContact = [], m_age = 18,
      m_gender = ''Male'', m_goals = []\<rparr>"

text \<open>
  The effect that recomputes the displayed list whenever \<open>members\<close>, \<open>searchTerm\<close> or
  \<open>statusFilter\<close> changes. A non-empty string is truthy.
\<close>

definition filterMembers :: "Member list \<Rightarrow> string \<Rightarrow> string \<Rightarrow> Member list" where
  "filterMembers members searchTerm statusFilter =
     (let result = members;
          result = (if statusFilter \<noteq> ''All''
                    then filter (\<lambda>member. m_membershipStatus member = statusFilter) result
                    else result);
          result = (if searchTerm \<noteq> []
                    then (let term = toLowerCase searchTerm
                          in filter (\<lambda>member.
                               includes_str (toLowerCase (m_name member)) term \<or>
                               includes_str (toLowerCase (m_email member)) term \<or>
                               includes_str (m_phone member) term) result)
                    else result)
      in result)"

definition membersFilterEffect :: "MembersState \<Rightarrow> MembersState" where
  "membersFilterEffect s =
     s\<lparr>mem_filteredMembers :=
         filterMembers (mem_members s) (mem_searchTerm s) (mem_statusFilter s)\<rparr>"

definition fetchMembers ::
  "Member list response \<Rightarrow> MembersState \<Rightarrow> MembersState \<times> MemberFormData effect list" where
  "fetchMembers resp s =
     (case resp of
        Resolved data \<Rightarrow>
          (s\<lparr>mem_members := data, mem_filteredMembers := data, mem_isLoading := False\<rparr>,
           [Api (GET ''/members'')])
      | Rejected \<Rightarrow>
          (s\<lparr>mem_isLoading := False\<rparr>,
           [Api (GET ''/members''), ConsoleError ''Error fetching members:'',
            ToastError ''Failed to load members'']))"

definition closeModal :: "MemberFormData \<Rightarrow> MembersState \<Rightarrow> MembersState" where
  "closeModal emptyForm s = s\<lparr>mem_showModal := False, mem_memberForm := emptyForm\<rparr>"

text \<open>
  \<open>memberForm as Member\<close>, in the branch where \<open>member.id === memberForm.id\<close> has
  found the form's id to be the number \<open>i\<close>.
\<close>

definition asMember :: "number \<Rightarrow> MemberFormData \<Rightarrow> Member" where
  "asMember i f =
     \<lparr>m_id = i, m_name = m_name f, m_email = m_email f, m_phone = m_phone f,
      m_joinDate = m_joinDate f, m_membershipType = m_membershipType f,
      m_membershipStatus = m_membershipStatus f, m_membershipEnd = m_membershipEnd f,
      m_emergencyContact = m_emergencyContact f, m_age = m_age f,
      m_gender = m_gender f, m_goals = m_goals f\<rparr>"

definition updateMember :: "MemberFormData \<Rightarrow> Member \<Rightarrow> Member" where
  "updateMember memberForm member =
     (if Some (m_id member) = m_id memberForm then asMember (m_id member) memberForm
      else member)"

text \<open>\<open>handleSubmit\<close> of the Members page; \<open>resp\<close> is the outcome of its one REST call.\<close>

definition handleSubmit ::
  "MemberFormData \<Rightarrow> Member response \<Rightarrow> MembersState
     \<Rightarrow> MembersState \<times> MemberFormData effect list" where
  "handleSubmit emptyForm resp s =
     (let memberForm = mem_memberForm s in
      if mem_isEditing s then
        (case resp of
           Resolved data \<Rightarrow>
             (closeModal emptyForm
                (s\<lparr>mem_members := map (updateMember memberForm) (mem_members s)\<rparr>),
              [Api (PUT ''/members/'' (m_id memberForm) memberForm),
               ToastSuccess ''Member updated successfully''])
         | Rejected \<Rightarrow>
             (s, [Api (PUT ''/members/'' (m_id memberForm) memberForm),
                  ConsoleError ''Error saving member:'',
                  ToastError ''Failed to update member'']))
      else
        (case resp of
           Resolved data \<Rightarrow>
             (closeModal emptyForm (s\<lparr>mem_members := mem_members s @ [data]\<rparr>),
              [Api (POST ''/members'' memberForm),
               ToastSuccess ''Member added successfully''])
         | Rejected \<Rightarrow>
             (s, [Api (POST ''/members'' memberForm),
                  ConsoleError ''Error saving member:'',
                  ToastError ''Failed to add member''])))"

text \<open>
  \<open>handleDelete\<close> of the Members page; \<open>confirmed\<close> is the answer of \<open>window.confirm\<close>,
  and no call is made when it is false.
\<close>

definition handleDelete ::
  "bool \<Rightarrow> unit response \<Rightarrow> number \<Rightarrow> MembersState
     \<Rightarrow> MembersState \<times> MemberFormData effect list" where
  "handleDelete confirmed resp i s =
     (if \<not> confirmed then (s, [])
      else
        (case resp of
           Resolved data \<Rightarrow>
             (s\<lparr>mem_members := filter (\<lambda>member. m_id member \<noteq> i) (mem_members s)\<rparr>,
              [Api (DELETE ''/members/'' i), ToastSuccess ''Member deleted successfully''])
         | Rejected \<Rightarrow>
             (s, [Api (DELETE ''/members/'' i), ConsoleError ''Error deleting member:'',
                  ToastError ''Failed to delete member''])))"

section \<open>Trainers page\<close>

record TrainersState =
  trn_trainers :: "Trainer list"
  trn_filteredTrainers :: "Trainer list"
  trn_isLoading :: bool
  trn_searchTerm :: string
  trn_showModal :: bool
  trn_trainerForm :: TrainerFormData
  trn_isEditing :: bool
  trn_specialtyInput :: string
  trn_certificationInput :: string

definition emptyTrainerForm :: "string \<Rightarrow> TrainerFormData" where
  "emptyTrainerForm today =
     \<lparr>t_id = None, t_name = [], t_email = [], t_phone = [], t_hireDate = today,
      t_specialties = [], t_certifications = [], t_bio = [], t_schedule = [],
      t_imageUrl = []\<rparr>"

definition filterTrainers :: "Trainer list \<Rightarrow> string \<Rightarrow> Trainer list" where
  "filterTrainers trainers searchTerm =
     (if searchTerm \<noteq> []
      then (let term = toLowerCase searchTerm
            in filter (\<lambda>trainer.
                 includes_str (toLowerCase (t_name trainer)) term \<or>
                 includes_str (toLowerCase (t_email trainer)) term \<or>
                 list_ex (\<lambda>s. includes_str (toLowerCase s) term) (t_specialties trainer))
                 trainers)
      else trainers)"

definition trainersFilterEffect :: "TrainersState \<Rightarrow> TrainersState" where
  "trainersFilterEffect s =
     s\<lparr>trn_filteredTrainers := filterTrainers (trn_trainers s) (trn_searchTerm s)\<rparr>"

definition fetchTrainers ::
  "Trainer list response \<Rightarrow> TrainersState \<Rightarrow> TrainersState \<times> TrainerFormData effect list" where
  "fetchTrainers resp s =
     (case resp of
        Resolved data \<Rightarrow>
          (s\<lparr>trn_trainers := data, trn_filteredTrainers := data, trn_isLoading := False\<rparr>,
           [Api (GET ''/trainers'')])
      | Rejected \<Rightarrow>
          (s\<lparr>trn_isLoading := False\<rparr>,
           [Api (GET ''/trainers''), ConsoleError ''Error fetching trainers:'',
            ToastError ''Failed to load trainers'']))"

definition closeTrainerModal :: "TrainerFormData \<Rightarrow> TrainersState \<Rightarrow> TrainersState" where
  "closeTrainerModal emptyForm s =
     s\<lparr>trn_showModal := False, trn_trainerForm := emptyForm,
       trn_specialtyInput := [], trn_certificationInput := []\<rparr>"

definition asTrainer :: "number \<Rightarrow> TrainerFormData \<Rightarrow> Trainer" where
  "asTrainer i f =
     \<lparr>t_id = i, t_name = t_name f, t_email = t_email f, t_phone = t_phone f,
      t_hireDate = t_hireDate f, t_specialties = t_specialties f,
      t_certifications = t_certifications f, t_bio = t_bio f, t_schedule = t_schedule f,
      t_imageUrl = t_imageUrl f\<rparr>"

definition updateTrainer :: "TrainerFormData \<Rightarrow> Trainer \<Rightarrow> Trainer" where
  "updateTrainer trainerForm trainer =
     (if Some (t_id trainer) = t_id trainerForm then asTrainer (t_id trainer) trainerForm
      else trainer)"

definition handleTrainerSubmit ::
  "TrainerFormData \<Rightarrow> Trainer response \<Rightarrow> TrainersState
     \<Rightarrow> TrainersState \<times> TrainerFormData effect list" where
  "handleTrainerSubmit emptyForm resp s =
     (let trainerForm = trn_trainerForm s in
      if trn_isEditing s then
        (case resp of
           Resolved data \<Rightarrow>
             (closeTrainerModal emptyForm
                (s\<lparr>trn_trainers := map (updateTrainer trainerForm) (trn_trainers s)\<rparr>),
              [Api (PUT ''/trainers/'' (t_id trainerForm) trainerForm),
               ToastSuccess ''Trainer updated successfully''])
         | Rejected \<Rightarrow>
             (s, [Api (PUT ''/trainers/'' (t_id trainerForm) trainerForm),
                  ConsoleError ''Error saving trainer:'',
                  ToastError ''Failed to update trainer'']))
      else
        (case resp of
           Resolved data \<Rightarrow>
             (closeTrainerModal emptyForm (s\<lparr>trn_trainers := trn_trainers s @ [data]\<rparr>),
              [Api (POST ''/trainers'' trainerForm),
               ToastSuccess ''Trainer added successfully''])
         | Rejected \<Rightarrow>
             (s, [Api (POST ''/trainers'' trainerForm),
                  ConsoleError ''Error saving trainer:'',
                  ToastError ''Failed to add trainer''])))"

definition handleTrainerDelete ::
  "bool \<Rightarrow> unit response \<Rightarrow> number \<Rightarrow> TrainersState
     \<Rightarrow> TrainersState \<times> TrainerFormData effect list" where
  "handleTrainerDelete confirmed resp i s =
     (if \<not> confirmed then (s, [])
      else
        (case resp of
           Resolved data \<Rightarrow>
             (s\<lparr>trn_trainers := filter (\<lambda>trainer. t_id trainer \<noteq> i) (trn_trainers s)\<rparr>,
              [Api (DELETE ''/trainers/'' i), ToastSuccess ''Trainer deleted successfully''])
         | Rejected \<Rightarrow>
             (s, [Api (DELETE ''/trainers/'' i), ConsoleError ''Error deleting trainer:'',
                  ToastError ''Failed to delete trainer''])))"

section \<open>Schedule page\<close>

record ScheduleState =
  sch_classes :: "ClassSchedule list"
  sch_trainers :: "Trainer list"
  sch_isLoading :: bool
  sch_selectedDay :: string

definition fetchScheduleData ::
  "(ClassSchedule list \<times> Trainer list) response \<Rightarrow> ScheduleState
     \<Rightarrow> ScheduleState \<times> unit effect list" where
  "fetchScheduleData resp s =
     (case resp of
        Resolved (classesData, trainersData) \<Rightarrow>
          (s\<lparr>sch_classes := classesData, sch_trainers := trainersData,
             sch_isLoading := False\<rparr>,
           [Api (GET ''/classes''), Api (GET ''/trainers'')])
      | Rejected \<Rightarrow>
          (s\<lparr>sch_isLoading := False\<rparr>,
           [Api (GET ''/classes''), Api (GET ''/trainers''),
            ConsoleError ''Error fetching schedule data:'',
            ToastError ''Failed to load schedule'']))"

text \<open>\<open>getTrainerName\<close>, over the fetched \<open>trainers\<close> of the page.\<close>

definition getTrainerName :: "Trainer list \<Rightarrow> number \<Rightarrow> string" where
  "getTrainerName trainers i =
     (case find (\<lambda>t. t_id t = i) trainers of
        Some trainer \<Rightarrow> t_name trainer
      | None \<Rightarrow> ''Unknown'')"


subsection \<open>Arithmetic on numbers\<close>

text \<open>
  The result of \<open>/\<close> and \<open>*\<close> is an IEEE 754 double: the exact quotient or product,
  rounded to the nearest number with a 53-bit significand (ties to the even significand),
  with gradual underflow below \<open>2 powi (- 1022)\<close> and overflow to infinity from
  \<open>2 powi 1024\<close> on. A value of an arithmetic expression is a finite number, an infinity
  or \<open>NaN\<close>. The sign of a zero is not modelled; it only decides the sign of the infinity
  that a division by zero returns.
\<close>

datatype jsnumber = Finite number | PosInfinity | NegInfinity | NaN

text \<open>The exponent of the power of two at or below a positive rational.\<close>

definition floorLog2 :: "rat \<Rightarrow> int" where
  "floorLog2 x =
     (let (a, b) = quotient_of x;
          d = bitlen a - bitlen b
      in if 2 powi d \<le> x then d else d - 1)"

definition roundHalfEven :: "rat \<Rightarrow> int" where
  "roundHalfEven x =
     (let f = \<lfloor>x\<rfloor>; d = x - of_int f
      in if d < 1 / 2 then f
         else if 1 / 2 < d then f + 1
         else if even f then f else f + 1)"

definition toDouble :: "rat \<Rightarrow> jsnumber" where
  "toDouble x =
     (if x = 0 then Finite 0
      else
        (let k = floorLog2 \<bar>x\<bar>;
             p = max (k - 52) (- 1074);
             y = of_int (roundHalfEven (\<bar>x\<bar> / 2 powi p)) * 2 powi p
         in if 2 powi 1024 \<le> y then (if 0 < x then PosInfinity else NegInfinity)
            else Finite (sgn x * y)))"

fun jsDivide :: "jsnumber \<Rightarrow> jsnumber \<Rightarrow> jsnumber" where
  "jsDivide NaN b = NaN"
| "jsDivide a NaN = NaN"
| "jsDivide (Finite a) (Finite b) =
     (if b = 0 then (if a = 0 then NaN else if 0 < a then PosInfinity else NegInfinity)
      else toDouble (a / b))"
| "jsDivide (Finite a) b = Finite 0"
| "jsDivide PosInfinity (Finite b) = (if b < 0 then NegInfinity else PosInfinity)"
| "jsDivide NegInfinity (Finite b) = (if b < 0 then PosInfinity else NegInfinity)"
| "jsDivide a b = NaN"

fun jsTimes :: "jsnumber \<Rightarrow> jsnumber \<Rightarrow> jsnumber" where
  "jsTimes NaN b = NaN"
| "jsTimes a NaN = NaN"
| "jsTimes (Finite a) (Finite b) = toDouble (a * b)"
| "jsTimes (Finite a) PosInfinity =
     (if a = 0 then NaN else if 0 < a then PosInfinity else NegInfinity)"
| "jsTimes (Finite a) NegInfinity =
     (if a = 0 then NaN else if 0 < a then NegInfinity else PosInfinity)"
| "jsTimes PosInfinity (Finite b) =
     (if b = 0 then NaN else if 0 < b then PosInfinity else NegInfinity)"
| "jsTimes NegInfinity (Finite b) =
     (if b = 0 then NaN else if 0 < b then NegInfinity else PosInfinity)"
| "jsTimes PosInfinity PosInfinity = PosInfinity"
| "jsTimes PosInfinity NegInfinity = NegInfinity"
| "jsTimes NegInfinity PosInfinity = NegInfinity"
| "jsTimes NegInfinity NegInfinity = PosInfinity"

text \<open>
  \<open>Math.round\<close>: the integer nearest to a finite number, the greater one at a tie;
  infinities and \<open>NaN\<close> are returned as they are.
\<close>

fun mathRound :: "jsnumber \<Rightarrow> jsnumber" where
  "mathRound (Finite x) = Finite (of_int \<lfloor>x + 1 / 2\<rfloor>)"
| "mathRound v = v"

text \<open>\<open>enrollmentPercentage\<close> of the Schedule page.\<close>

definition enrollmentPercentage :: "jsnumber \<Rightarrow> jsnumber \<Rightarrow> jsnumber" where
  "enrollmentPercentage enrolled capacity =
     mathRound (jsTimes (jsDivide enrolled capacity) (Finite 100))"

section \<open>Payments page\<close>

text \<open>\<open>keyof Payment\<close>, and the sort configuration.\<close>

datatype PaymentKey =
  Key_id | Key_memberId | Key_amount | Key_date | Key_type | Key_status | Key_method

datatype direction = asc | desc

record SortConfig =
  key :: "PaymentKey option"
  direction :: direction

record PaymentsState =
  pay_payments :: "Payment list"
  pay_members :: "Member list"
  pay_filteredPayments :: "Payment list"
  pay_isLoading :: bool
  pay_searchTerm :: string
  pay_statusFilter :: string
  pay_sortConfig :: SortConfig

text \<open>
  \<open>a[key] < b[key]\<close>: the numeric order on the number fields, the lexicographic order
  on the string fields. \<open>a[key] > b[key]\<close> is the same test with the sides exchanged.
\<close>

fun lessAt :: "PaymentKey \<Rightarrow> Payment \<Rightarrow> Payment \<Rightarrow> bool" where
  "lessAt Key_id a b = (p_id a < p_id b)"
| "lessAt Key_memberId a b = (p_memberId a < p_memberId b)"
| "lessAt Key_amount a b = (p_amount a < p_amount b)"
| "lessAt Key_date a b = (p_date a < p_date b)"
| "lessAt Key_type a b = (p_type a < p_type b)"
| "lessAt Key_status a b = (p_status a < p_status b)"
| "lessAt Key_method a b = (p_method a < p_method b)"

text \<open>The comparator that \<open>sortItems\<close> hands to \<open>sort\<close>.\<close>

definition comparePayments :: "PaymentKey \<Rightarrow> direction \<Rightarrow> Payment \<Rightarrow> Payment \<Rightarrow> int" where
  "comparePayments k d a b =
     (if lessAt k a b then (if d = asc then - 1 else 1)
      else if lessAt k b a then (if d = asc then 1 else - 1)
      else 0)"

text \<open>
  \<open>Array.prototype.sort(compare)\<close> on a copy of the array: a stable sort, as the language
  has required since ES2019, written as insertion from the right: an element goes in
  front of the first element it does not compare greater than.
\<close>

fun insertBy :: "('a \<Rightarrow> 'a \<Rightarrow> int) \<Rightarrow> 'a \<Rightarrow> 'a list \<Rightarrow> 'a list" where
  "insertBy cmp x [] = [x]"
| "insertBy cmp x (y # ys) = (if cmp x y \<le> 0 then x # y # ys else y # insertBy cmp x ys)"

definition sortArray :: "('a \<Rightarrow> 'a \<Rightarrow> int) \<Rightarrow> 'a list \<Rightarrow> 'a list" where
  "sortArray cmp xs = foldr (insertBy cmp) xs []"

definition sortItems :: "Payment list \<Rightarrow> SortConfig \<Rightarrow> Payment list" where
  "sortItems items cfg =
     (case key cfg of
        None \<Rightarrow> items
      | Some k \<Rightarrow> sortArray (comparePayments k (direction cfg)) items)"

text \<open>
  The filtering part of \<open>applyFilters\<close>. \<open>numberToString\<close> stands for
  \<open>Number.prototype.toString\<close>, the decimal rendering of the amount; \<open>member?.name\<close> of
  a member that is not found is \<open>undefined\<close>, which is falsy.
\<close>

definition filterPayments ::
  "(number \<Rightarrow> string) \<Rightarrow> Payment list \<Rightarrow> Member list \<Rightarrow> string \<Rightarrow> string \<Rightarrow> Payment list" where
  "filterPayments numberToString payments members searchTerm statusFilter =
     (let result = payments;
          result = (if statusFilter \<noteq> ''All''
                    then filter (\<lambda>payment. p_status payment = statusFilter) result
                    else result);
          result = (if searchTerm \<noteq> []
                    then (let term = toLowerCase searchTerm
                          in filter (\<lambda>payment.
                               (let member = find (\<lambda>m. m_id m = p_memberId payment) members
                                in (case member of
                                      None \<Rightarrow> False
                                    | Some m \<Rightarrow> includes_str (toLowerCase (m_name m)) term) \<or>
                                   (case member of
                                      None \<Rightarrow> False
                                    | Some m \<Rightarrow> includes_str (toLowerCase (m_email m)) term) \<or>
                                   includes_str (numberToString (p_amount payment)) term \<or>
                                   includes_str (toLowerCase (p_method payment)) term)) result)
                    else result)
      in result)"

definition applyFilters :: "(number \<Rightarrow> string) \<Rightarrow> PaymentsState \<Rightarrow> PaymentsState" where
  "applyFilters numberToString s =
     s\<lparr>pay_filteredPayments :=
         sortItems
           (filterPayments numberToString (pay_payments s) (pay_members s)
              (pay_searchTerm s) (pay_statusFilter s))
           (pay_sortConfig s)\<rparr>"

definition requestSort :: "PaymentKey \<Rightarrow> PaymentsState \<Rightarrow> PaymentsState" where
  "requestSort k s =
     (let sortConfig = pay_sortConfig s;
          dir = (if key sortConfig = Some k \<and> direction sortConfig = asc then desc else asc);
          newConfig = \<lparr>key = Some k, direction = dir\<rparr>
      in s\<lparr>pay_sortConfig := newConfig,
           pay_filteredPayments := sortItems (pay_filteredPayments s) newConfig\<rparr>)"

definition fetchPaymentsData ::
  "(Payment list \<times> Member list) response \<Rightarrow> PaymentsState
     \<Rightarrow> PaymentsState \<times> unit effect list" where
  "fetchPaymentsData resp s =
     (case resp of
        Resolved (paymentsData, membersData) \<Rightarrow>
          (s\<lparr>pay_payments := paymentsData, pay_members := membersData,
             pay_filteredPayments := sortItems paymentsData (pay_sortConfig s),
             pay_isLoading := False\<rparr>,
           [Api (GET ''/payments''), Api (GET ''/members'')])
      | Rejected \<Rightarrow>
          (s\<lparr>pay_isLoading := False\<rparr>,
           [Api (GET ''/payments''), Api (GET ''/members''),
            ConsoleError ''Error fetching payments data:'',
            ToastError ''Failed to load payments'']))"

definition getMemberName :: "Member list \<Rightarrow> number \<Rightarrow> string" where
  "getMemberName members memberId =
     (case find (\<lambda>m. m_id m = memberId) members of
        Some member \<Rightarrow> m_name member
      | None \<Rightarrow> ''Unknown Member'')"

section \<open>Dashboard\<close>

record StatsData =
  totalMembers :: nat
  activeMembers :: nat
  totalTrainers :: nat
  totalClasses :: nat
  recentPayments :: nat

record DashboardState =
  dash_stats :: StatsData
  dash_activeMembers :: "Member list"
  dash_isLoading :: bool

text \<open>
  \<open>fetchDashboardData\<close>. \<open>isRecent\<close> stands for the test of a payment's date against the
  clock (within the last thirty days). The \<open>catch\<close> block writes to the console only.
\<close>

definition fetchDashboardData ::
  "(Payment \<Rightarrow> bool)
     \<Rightarrow> (Member list \<times> Trainer list \<times> ClassSchedule list \<times> Payment list) response
     \<Rightarrow> DashboardState \<Rightarrow> DashboardState \<times> unit effect list" where
  "fetchDashboardData isRecent resp s =
     (case resp of
        Resolved (membersData, trainersData, classesData, paymentsData) \<Rightarrow>
          (let active = filter (\<lambda>member. m_membershipStatus member = ''Active'') membersData
           in (s\<lparr>dash_stats :=
                    \<lparr>totalMembers = length membersData,
                     activeMembers = length active,
                     totalTrainers = length trainersData,
                     totalClasses = length classesData,
                     recentPayments = length (filter isRecent paymentsData)\<rparr>,
                  dash_activeMembers := take 5 active,
                  dash_isLoading := False\<rparr>,
               [Api (GET ''/members''), Api (GET ''/trainers''), Api (GET ''/classes''),
                Api (GET ''/payments'')]))
      | Rejected \<Rightarrow>
          (s\<lparr>dash_isLoading := False\<rparr>,
           [Api (GET ''/members''), Api (GET ''/trainers''), Api (GET ''/classes''),
            Api (GET ''/payments''), ConsoleError ''Error fetching dashboard data:'']))"

section \<open>The list pipeline as the specification words it\<close>

text \<open>
  The specification describes one generic filter step: a case-insensitive substring match
  of the search term over the string fields of the entity, intersected with an equality
  test on the status field; the selection \<open>All\<close> switches the equality test off and an
  empty search term switches the text test off. \<open>stringFields\<close> lists the string fields of
  an entity and \<open>status\<close> reads its status field.
\<close>

definition matchesCaseInsensitive :: "string \<Rightarrow> string \<Rightarrow> bool" where
  "matchesCaseInsensitive field term = includes_str (toLowerCase field) (toLowerCase term)"

definition spec_displayed ::
  "('a \<Rightarrow> string list) \<Rightarrow> ('a \<Rightarrow> string) \<Rightarrow> 'a list \<Rightarrow> string \<Rightarrow> string \<Rightarrow> 'a list" where
  "spec_displayed stringFields status collection searchTerm selection =
     filter (\<lambda>x. (searchTerm = [] \<or>
                   list_ex (\<lambda>f. matchesCaseInsensitive f searchTerm) (stringFields x)) \<and>
                 (selection = ''All'' \<or> status x = selection)) collection"

text \<open>
  The strings the Payments page searches for a payment: the name and email of the first
  fetched member whose id is the payment's member id (none when there is no such
  member), the decimal rendering of the amount, and the payment method.
\<close>

definition paymentSearchFields :: "(number \<Rightarrow> string) \<Rightarrow> Member list \<Rightarrow> Payment \<Rightarrow> string list" where
  "paymentSearchFields numberToString members x =
     (case find (\<lambda>m. m_id m = p_memberId x) members of
        None \<Rightarrow> []
      | Some m \<Rightarrow> [m_name m, m_email m]) @
     [numberToString (p_amount x), p_method x]"

section \<open>Example records\<close>

text \<open>Records with the fields that matter filled in, for evaluating the pages on data.\<close>

definition exampleMember :: "number \<Rightarrow> string \<Rightarrow> string \<Rightarrow> string \<Rightarrow> string \<Rightarrow> Member" where
  "exampleMember i name email phone status =
     \<lparr>m_id = i, m_name = name, m_email = email, m_phone = phone,
      m_joinDate = ''2024-01-15'', m_membershipType = ''Standard'',
      m_membershipStatus = status, m_membershipEnd = ''2025-01-15'',
      m_emergencyContact = ''555-0100'', m_age = 30, m_gender = ''Female'',
      m_goals = ''Strength''\<rparr>"

definition exampleMemberForm :: "number option \<Rightarrow> string \<Rightarrow> string \<Rightarrow> MemberFormData" where
  "exampleMemberForm i name status =
     \<lparr>m_id = i, m_name = name, m_email = ''new@example.com'', m_phone = ''555-0199'',
      m_joinDate = ''2024-01-15'', m_membershipType = ''Premium'',
      m_membershipStatus = status, m_membershipEnd = ''2025-01-15'',
      m_emergencyContact = ''555-0100'', m_age = 31, m_gender = ''Female'',
      m_goals = ''Endurance''\<rparr>"

definition exampleTrainer :: "number \<Rightarrow> string \<Rightarrow> string list \<Rightarrow> Trainer" where
  "exampleTrainer i name specialties =
     \<lparr>t_id = i, t_name = name, t_email = ''coach@example.com'', t_phone = ''555-0101'',
      t_hireDate = ''2023-06-01'', t_specialties = specialties, t_certifications = [],
      t_bio = [], t_schedule = ''Mon-Fri'', t_imageUrl = []\<rparr>"

definition exampleTrainerForm :: "number option \<Rightarrow> string \<Rightarrow> TrainerFormData" where
  "exampleTrainerForm i name =
     \<lparr>t_id = i, t_name = name, t_email = ''coach2@example.com'', t_phone = ''555-0102'',
      t_hireDate = ''2023-06-01'', t_specialties = [''Yoga''], t_certifications = [],
      t_bio = [], t_schedule = ''Sat-Sun'', t_imageUrl = []\<rparr>"

definition examplePayment :: "number \<Rightarrow> number \<Rightarrow> number \<Rightarrow> string \<Rightarrow> string \<Rightarrow> Payment" where
  "examplePayment i memberId amount date status =
     \<lparr>p_id = i, p_memberId = memberId, p_amount = amount, p_date = date,
      p_type = ''Membership'', p_status = status, p_method = ''Credit Card''\<rparr>"

definition exampleMembersState :: "Member list \<Rightarrow> MemberFormData \<Rightarrow> bool \<Rightarrow> MembersState" where
  "exampleMembersState ms form editing =
     \<lparr>mem_members = ms, mem_filteredMembers = ms, mem_isLoading = False,
      mem_searchTerm = [], mem_statusFilter = ''All'', mem_showModal = True,
      mem_memberForm = form, mem_isEditing = editing\<rparr>"

definition exampleTrainersState :: "Trainer list \<Rightarrow> TrainerFormData \<Rightarrow> bool \<Rightarrow> TrainersState" where
  "exampleTrainersState ts form editing =
     \<lparr>trn_trainers = ts, trn_filteredTrainers = ts, trn_isLoading = False,
      trn_searchTerm = [], trn_showModal = True, trn_trainerForm = form,
      trn_isEditing = editing, trn_specialtyInput = [], trn_certificationInput = []\<rparr>"

definition examplePaymentsState :: "Payment list \<Rightarrow> Member list \<Rightarrow> SortConfig \<Rightarrow> PaymentsState" where
  "examplePaymentsState ps ms cfg =
     \<lparr>pay_payments = ps, pay_members = ms, pay_filteredPayments = [],
      pay_isLoading = False, pay_searchTerm = [], pay_statusFilter = ''All'',
      pay_sortConfig = cfg\<rparr>"

definition initialDashboardState :: DashboardState where
  "initialDashboardState =
     \<lparr>dash_stats = \<lparr>totalMembers = 0, activeMembers = 0, totalTrainers = 0,
                     totalClasses = 0, recentPayments = 0\<rparr>,
      dash_activeMembers = [], dash_isLoading = True\<rparr>"

text \<open>Three payments that every field orders differently.\<close>

definition examplePayments :: "Payment list" where
  "examplePayments =
     [\<lparr>p_id = 1, p_memberId = 9, p_amount = 4999 / 100, p_date = ''2024-02-01'',
       p_type = ''Membership'', p_status = ''Pending'', p_method = ''Cash''\<rparr>,
      \<lparr>p_id = 2, p_memberId = 8, p_amount = 20, p_date = ''2024-03-01'',
       p_type = ''Class'', p_status = ''Paid'', p_method = ''Credit Card''\<rparr>,
      \<lparr>p_id = 3, p_memberId = 7, p_amount = 120, p_date = ''2024-01-01'',
       p_type = ''Personal Training'', p_status = ''Overdue'', p_method = ''Bank Transfer''\<rparr>]"

section \<open>The displayed lists\<close>

lemma includes_str_sublist: "includes_str s t = sublist t s"
  by (induction s) (simp_all add: sublist_Cons_right)

text \<open>What each page's filter computes, as one predicate.\<close>

lemma filterMembers_eq:
  "filterMembers members searchTerm statusFilter =
     filter (\<lambda>m. (statusFilter = ''All'' \<or> m_membershipStatus m = statusFilter) \<and>
                 (searchTerm = [] \<or>
                  matchesCaseInsensitive (m_name m) searchTerm \<or>
                  matchesCaseInsensitive (m_email m) searchTerm \<or>
                  includes_str (m_phone m) (toLowerCase searchTerm))) members"
  by (auto simp: filterMembers_def matchesCaseInsensitive_def Let_def intro: filter_cong)

lemma filterTrainers_eq:
  "filterTrainers trainers searchTerm =
     filter (\<lambda>t. searchTerm = [] \<or>
                 matchesCaseInsensitive (t_name t) searchTerm \<or>
                 matchesCaseInsensitive (t_email t) searchTerm \<or>
                 list_ex (\<lambda>sp. matchesCaseInsensitive sp searchTerm) (t_specialties t)) trainers"
  by (auto simp: filterTrainers_def matchesCaseInsensitive_def Let_def intro: filter_cong)

lemma filterPayments_eq:
  "filterPayments numberToString payments members searchTerm statusFilter =
     filter (\<lambda>p. (statusFilter = ''All'' \<or> p_status p = statusFilter) \<and>
                 (searchTerm = [] \<or>
                  (\<exists>m. find (\<lambda>m. m_id m = p_memberId p) members = Some m \<and>
                       (matchesCaseInsensitive (m_name m) searchTerm \<or>
                        matchesCaseInsensitive (m_email m) searchTerm)) \<or>
                  includes_str (numberToString (p_amount p)) (toLowerCase searchTerm) \<or>
                  matchesCaseInsensitive (p_method p) searchTerm)) payments"
  by (auto simp: filterPayments_def matchesCaseInsensitive_def Let_def split: option.splits
      intro!: filter_cong)

lemma filterMembers_spec:
  assumes "\<forall>m \<in> set members. toLowerCase (m_phone m) = m_phone m"
  shows "filterMembers members searchTerm statusFilter =
     spec_displayed (\<lambda>m. [m_name m, m_email m, m_phone m]) m_membershipStatus
       members searchTerm statusFilter"
  unfolding filterMembers_eq spec_displayed_def
  using assms by (intro filter_cong refl) (auto simp: matchesCaseInsensitive_def)

lemma filterTrainers_spec:
  "filterTrainers trainers searchTerm =
     spec_displayed (\<lambda>x. t_name x # t_email x # t_specialties x) (\<lambda>x. ''All'')
       trainers searchTerm ''All''"
  unfolding filterTrainers_eq spec_displayed_def
  by (intro filter_cong refl) (auto simp: list_ex_iff)

lemma filterPayments_spec:
  assumes "\<forall>x \<in> set payments. toLowerCase (numberToString (p_amount x)) = numberToString (p_amount x)"
  shows "filterPayments numberToString payments members searchTerm statusFilter =
     spec_displayed (paymentSearchFields numberToString members) p_status
       payments searchTerm statusFilter"
  unfolding filterPayments_eq spec_displayed_def
  using assms
  by (intro filter_cong refl)
     (auto simp: matchesCaseInsensitive_def paymentSearchFields_def split: option.splits)

text \<open>
  C1 (as amended). The specification's filter step, \<open>spec_displayed\<close>, is what the pages
  show, with two qualifications. On the Members page the displayed list equals the
  collection filtered by the case-insensitive match over name, email and phone and by the
  equality on membershipStatus, provided no stored phone has an upper-case letter. On the
  Trainers page, which has no status selection, the displayed list equals the collection
  filtered by the case-insensitive match over name, email and every specialty. On the
  Payments page the displayed list is the collection filtered in the same way (text over
  the name and email of the payment's member, the rendering of the amount and the method;
  equality on status), then sorted by the current sort configuration, provided the
  rendering of an amount has no upper-case letter. The selection \<open>All\<close> switches the
  equality off and an empty search term switches the text match off.
\<close>

theorem displayed_lists_follow_filter_pipeline:
  assumes "\<forall>m \<in> set (mem_members s). toLowerCase (m_phone m) = m_phone m"
    and "\<forall>x \<in> set (pay_payments p).
           toLowerCase (numberToString (p_amount x)) = numberToString (p_amount x)"
  shows
  "mem_filteredMembers (membersFilterEffect s) =
     spec_displayed (\<lambda>m. [m_name m, m_email m, m_phone m]) m_membershipStatus
       (mem_members s) (mem_searchTerm s) (mem_statusFilter s) \<and>
   trn_filteredTrainers (trainersFilterEffect t) =
     spec_displayed (\<lambda>x. t_name x # t_email x # t_specialties x) (\<lambda>x. ''All'')
       (trn_trainers t) (trn_searchTerm t) ''All'' \<and>
   pay_filteredPayments (applyFilters numberToString p) =
     sortItems
       (spec_displayed (paymentSearchFields numberToString (pay_members p)) p_status
          (pay_payments p) (pay_searchTerm p) (pay_statusFilter p))
       (pay_sortConfig p)"
  using filterMembers_spec[OF assms(1)] filterTrainers_spec filterPayments_spec[OF assms(2)]
  by (simp add: membersFilterEffect_def trainersFilterEffect_def applyFilters_def)

theorem displayed_lists_follow_filter_pipeline_witness:
  "map m_id (mem_filteredMembers (membersFilterEffect
      ((exampleMembersState
          [exampleMember 1 ''Ann Lee'' ''a@x.org'' ''555-0001'' ''Active'',
           exampleMember 2 ''Bob'' ''joanne@x.org'' ''555-0002'' ''Expired'',
           exampleMember 3 ''Cy'' ''c@x.org'' ''555-0003'' ''Active'']
          (exampleMemberForm None [] ''Active'') False)
       \<lparr>mem_searchTerm := ''ANN'', mem_statusFilter := ''Active''\<rparr>))) = [1] \<and>
   map t_id (trn_filteredTrainers (trainersFilterEffect
      ((exampleTrainersState
          [exampleTrainer 1 ''Ann'' [''Boxing''], exampleTrainer 2 ''Bob'' [''Hot Yoga'']]
          (exampleTrainerForm None []) False)
       \<lparr>trn_searchTerm := ''yoga''\<rparr>))) = [2] \<and>
   map p_id (pay_filteredPayments (applyFilters wholeNumberToString
      ((examplePaymentsState
          [examplePayment 1 7 50 ''2024-01-01'' ''Paid'',
           examplePayment 2 8 50 ''2024-02-01'' ''Paid'',
           examplePayment 3 7 75 ''2024-03-01'' ''Paid'',
           examplePayment 4 7 50 ''2024-04-01'' ''Pending'']
          [exampleMember 7 ''Ann Lee'' ''a@x.org'' ''555-0001'' ''Active'',
           exampleMember 8 ''Bob'' ''b@x.org'' ''555-0002'' ''Active'']
          \<lparr>key = Some Key_date, direction = desc\<rparr>)
       \<lparr>pay_searchTerm := ''Ann'', pay_statusFilter := ''Paid''\<rparr>))) = [3, 1]"
proof -
  let ?S = "(exampleMembersState
          [exampleMember 1 ''Ann Lee'' ''a@x.org'' ''555-0001'' ''Active'',
           exampleMember 2 ''Bob'' ''joanne@x.org'' ''555-0002'' ''Expired'',
           exampleMember 3 ''Cy'' ''c@x.org'' ''555-0003'' ''Active'']
          (exampleMemberForm None [] ''Active'') False)
       \<lparr>mem_searchTerm := ''ANN'', mem_statusFilter := ''Active''\<rparr>"
  let ?T = "(exampleTrainersState
          [exampleTrainer 1 ''Ann'' [''Boxing''], exampleTrainer 2 ''Bob'' [''Hot Yoga'']]
          (exampleTrainerForm None []) False)
       \<lparr>trn_searchTerm := ''yoga''\<rparr>"
  let ?P = "(examplePaymentsState
          [examplePayment 1 7 50 ''2024-01-01'' ''Paid'',
           examplePayment 2 8 50 ''2024-02-01'' ''Paid'',
           examplePayment 3 7 75 ''2024-03-01'' ''Paid'',
           examplePayment 4 7 50 ''2024-04-01'' ''Pending'']
          [exampleMember 7 ''Ann Lee'' ''a@x.org'' ''555-0001'' ''Active'',
           exampleMember 8 ''Bob'' ''b@x.org'' ''555-0002'' ''Active'']
          \<lparr>key = Some Key_date, direction = desc\<rparr>)
       \<lparr>pay_searchTerm := ''Ann'', pay_statusFilter := ''Paid''\<rparr>"
  have h1: "\<forall>m \<in> set (mem_members ?S). toLowerCase (m_phone m) = m_phone m"
    by code_simp
  have h2: "\<forall>x \<in> set (pay_payments ?P).
      toLowerCase (wholeNumberToString (p_amount x)) = wholeNumberToString (p_amount x)"
    by code_simp
  note u = displayed_lists_follow_filter_pipeline[OF h1 h2, of ?T]
  have r1: "map m_id (spec_displayed (\<lambda>m. [m_name m, m_email m, m_phone m]) m_membershipStatus
       (mem_members ?S) (mem_searchTerm ?S) (mem_statusFilter ?S)) = [1]"
    by code_simp
  have r2: "map t_id (spec_displayed (\<lambda>x. t_name x # t_email x # t_specialties x) (\<lambda>x. ''All'')
       (trn_trainers ?T) (trn_searchTerm ?T) ''All'') = [2]"
    by code_simp
  have r3: "map p_id (sortItems
       (spec_displayed (paymentSearchFields wholeNumberToString (pay_members ?P)) p_status
          (pay_payments ?P) (pay_searchTerm ?P) (pay_statusFilter ?P))
       (pay_sortConfig ?P)) = [3, 1]"
    by code_simp
  show ?thesis
    unfolding u[THEN conjunct1] u[THEN conjunct2, THEN conjunct1]
      u[THEN conjunct2, THEN conjunct2]
    using r1 r2 r3 by blast
qed

text \<open>
  The claim as first stated fails at two inputs. A member whose phone is \<open>555-GYM\<close> is
  not found by the search term \<open>gym\<close>, since the term is lower-cased and the phone is
  not. And two payments fetched oldest first are displayed newest first under the
  page's initial sort configuration, with no search term and the selection \<open>All\<close>.
\<close>

theorem displayed_list_counterexample:
  "mem_filteredMembers (membersFilterEffect
      ((exampleMembersState [exampleMember 1 ''Ann'' ''a@x.org'' ''555-GYM'' ''Active'']
          (exampleMemberForm None [] ''Active'') False)\<lparr>mem_searchTerm := ''gym''\<rparr>)) \<noteq>
   spec_displayed (\<lambda>m. [m_name m, m_email m, m_phone m]) m_membershipStatus
      [exampleMember 1 ''Ann'' ''a@x.org'' ''555-GYM'' ''Active''] ''gym'' ''All'' \<and>
   pay_filteredPayments (applyFilters wholeNumberToString
      (examplePaymentsState
         [examplePayment 1 7 50 ''2024-01-01'' ''Paid'', examplePayment 2 7 50 ''2024-02-01'' ''Paid'']
         [] \<lparr>key = Some Key_date, direction = desc\<rparr>)) \<noteq>
   spec_displayed (paymentSearchFields wholeNumberToString []) p_status
      [examplePayment 1 7 50 ''2024-01-01'' ''Paid'', examplePayment 2 7 50 ''2024-02-01'' ''Paid'']
      [] ''All''"
proof -
  have a: "mem_filteredMembers (membersFilterEffect
      ((exampleMembersState [exampleMember 1 ''Ann'' ''a@x.org'' ''555-GYM'' ''Active'']
          (exampleMemberForm None [] ''Active'') False)\<lparr>mem_searchTerm := ''gym''\<rparr>)) = []"
    by code_simp
  have b: "spec_displayed (\<lambda>m. [m_name m, m_email m, m_phone m]) m_membershipStatus
      [exampleMember 1 ''Ann'' ''a@x.org'' ''555-GYM'' ''Active''] ''gym'' ''All'' =
      [exampleMember 1 ''Ann'' ''a@x.org'' ''555-GYM'' ''Active'']"
    by code_simp
  have c: "map p_id (pay_filteredPayments (applyFilters wholeNumberToString
      (examplePaymentsState
         [examplePayment 1 7 50 ''2024-01-01'' ''Paid'', examplePayment 2 7 50 ''2024-02-01'' ''Paid'']
         [] \<lparr>key = Some Key_date, direction = desc\<rparr>))) = [2, 1]"
    by code_simp
  have d: "map p_id (spec_displayed (paymentSearchFields wholeNumberToString []) p_status
      [examplePayment 1 7 50 ''2024-01-01'' ''Paid'', examplePayment 2 7 50 ''2024-02-01'' ''Paid'']
      [] ''All'') = [1, 2]"
    by code_simp
  have cd: "pay_filteredPayments (applyFilters wholeNumberToString
      (examplePaymentsState
         [examplePayment 1 7 50 ''2024-01-01'' ''Paid'', examplePayment 2 7 50 ''2024-02-01'' ''Paid'']
         [] \<lparr>key = Some Key_date, direction = desc\<rparr>)) \<noteq>
   spec_displayed (paymentSearchFields wholeNumberToString []) p_status
      [examplePayment 1 7 50 ''2024-01-01'' ''Paid'', examplePayment 2 7 50 ''2024-02-01'' ''Paid'']
      [] ''All''"
    using c d by auto
  show ?thesis unfolding a b using cd by simp
qed

section \<open>Sorting the payments\<close>

lemma mset_insertBy: "mset (insertBy cmp x ys) = add_mset x (mset ys)"
  by (induction ys) simp_all

lemma mset_sortArray: "mset (sortArray cmp xs) = mset xs"
  unfolding sortArray_def by (induction xs) (simp_all add: mset_insertBy)

lemma set_insertBy: "set (insertBy cmp x ys) = insert x (set ys)"
  by (induction ys) auto

text \<open>
  Insertion keeps a list ordered when the comparator is total and transitive, which is
  what \<open>sort\<close> asks of its argument.
\<close>

lemma sorted_insertBy:
  assumes total: "\<And>a b. cmp a b \<le> 0 \<or> cmp b a \<le> 0"
    and trans: "\<And>a b c. cmp a b \<le> 0 \<Longrightarrow> cmp b c \<le> 0 \<Longrightarrow> cmp a c \<le> 0"
    and "sorted_wrt (\<lambda>a b. cmp a b \<le> 0) ys"
  shows "sorted_wrt (\<lambda>a b. cmp a b \<le> 0) (insertBy cmp x ys)"
  using assms(3)
proof (induction ys)
  case Nil
  then show ?case by simp
next
  case (Cons y ys)
  show ?case
  proof (cases "cmp x y \<le> 0")
    case True
    then have "\<forall>z \<in> set ys. cmp x z \<le> 0" using Cons.prems trans by auto
    with True Cons.prems show ?thesis by simp
  next
    case False
    then have "cmp y x \<le> 0" using total[of x y] by simp
    with False Cons show ?thesis by (auto simp: set_insertBy)
  qed
qed

lemma sorted_sortArray:
  assumes total: "\<And>a b. cmp a b \<le> 0 \<or> cmp b a \<le> 0"
    and trans: "\<And>a b c. cmp a b \<le> 0 \<Longrightarrow> cmp b c \<le> 0 \<Longrightarrow> cmp a c \<le> 0"
  shows "sorted_wrt (\<lambda>a b. cmp a b \<le> 0) (sortArray cmp xs)"
  unfolding sortArray_def
  by (induction xs) (simp_all add: sorted_insertBy[OF total trans])

lemma lessAt_asym: "lessAt k a b \<Longrightarrow> \<not> lessAt k b a"
  by (cases k) auto

lemma lessAt_total_trans:
  "\<not> lessAt k b a \<Longrightarrow> \<not> lessAt k c b \<Longrightarrow> \<not> lessAt k c a"
  by (cases k) auto

lemma comparePayments_le_asc: "comparePayments k asc a b \<le> 0 \<longleftrightarrow> \<not> lessAt k b a"
  using lessAt_asym[of k a b] by (auto simp: comparePayments_def)

lemma comparePayments_le_desc: "comparePayments k desc a b \<le> 0 \<longleftrightarrow> \<not> lessAt k a b"
  using lessAt_asym[of k a b] by (auto simp: comparePayments_def)

lemma comparePayments_total:
  "comparePayments k d a b \<le> 0 \<or> comparePayments k d b a \<le> 0"
  using lessAt_asym[of k a b]
  by (cases d) (auto simp: comparePayments_le_asc comparePayments_le_desc)

lemma comparePayments_trans:
  "comparePayments k d a b \<le> 0 \<Longrightarrow> comparePayments k d b c \<le> 0
     \<Longrightarrow> comparePayments k d a c \<le> 0"
  using lessAt_total_trans[of k b a c] lessAt_total_trans[of k b c a]
  by (cases d) (auto simp: comparePayments_le_asc comparePayments_le_desc)

lemma sortItems_sorted_asc:
  "sorted_wrt (\<lambda>a b. \<not> lessAt k b a) (sortItems items \<lparr>key = Some k, direction = asc\<rparr>)"
  using sorted_sortArray[of "comparePayments k asc" items,
      OF comparePayments_total comparePayments_trans]
  by (simp add: sortItems_def comparePayments_le_asc)

lemma sortItems_sorted_desc:
  "sorted_wrt (\<lambda>a b. \<not> lessAt k a b) (sortItems items \<lparr>key = Some k, direction = desc\<rparr>)"
  using sorted_sortArray[of "comparePayments k desc" items,
      OF comparePayments_total comparePayments_trans]
  by (simp add: sortItems_def comparePayments_le_desc)

lemma mset_sortItems: "mset (sortItems items cfg) = mset items"
  by (simp add: sortItems_def mset_sortArray split: option.split)

text \<open>
  C2. For every list of payments, every field key \<open>k\<close> and direction \<open>d\<close>, \<open>sortItems\<close>
  returns a permutation of the list (the same payments with the same multiplicities) in
  which no payment is followed, at any distance, by one that is smaller at field \<open>k\<close>
  when \<open>d\<close> is \<open>asc\<close>, or by one that is greater at field \<open>k\<close> when \<open>d\<close> is \<open>desc\<close>. Key by
  key, on the fields themselves: sorted by \<open>id\<close>, \<open>memberId\<close> or \<open>amount\<close> the numbers
  never fall (\<open>asc\<close>) or never rise (\<open>desc\<close>) along the result, and sorted by \<open>date\<close>,
  \<open>type\<close>, \<open>status\<close> or \<open>method\<close> the strings never fall or never rise in the
  lexicographic order. Nothing is said about the order of payments that are equal at
  \<open>k\<close>. \<open>requestSort k\<close> stores the key \<open>k\<close> with direction \<open>asc\<close>, unless the stored key
  is already \<open>k\<close> with direction \<open>asc\<close>, when it stores \<open>desc\<close>; and it re-sorts the
  displayed list by the new configuration.
\<close>

theorem sortItems_sorted_permutation_requestSort_toggle:
  "mset (sortItems items \<lparr>key = Some k, direction = d\<rparr>) = mset items \<and>
   sorted_wrt (\<lambda>a b. if d = asc then \<not> lessAt k b a else \<not> lessAt k a b)
     (sortItems items \<lparr>key = Some k, direction = d\<rparr>) \<and>
   sorted_wrt (\<lambda>a b. p_id a \<le> p_id b)
     (sortItems items \<lparr>key = Some Key_id, direction = asc\<rparr>) \<and>
   sorted_wrt (\<lambda>a b. p_memberId a \<le> p_memberId b)
     (sortItems items \<lparr>key = Some Key_memberId, direction = asc\<rparr>) \<and>
   sorted_wrt (\<lambda>a b. p_amount a \<le> p_amount b)
     (sortItems items \<lparr>key = Some Key_amount, direction = asc\<rparr>) \<and>
   sorted_wrt (\<lambda>a b. p_date a \<le> p_date b)
     (sortItems items \<lparr>key = Some Key_date, direction = asc\<rparr>) \<and>
   sorted_wrt (\<lambda>a b. p_type a \<le> p_type b)
     (sortItems items \<lparr>key = Some Key_type, direction = asc\<rparr>) \<and>
   sorted_wrt (\<lambda>a b. p_status a \<le> p_status b)
     (sortItems items \<lparr>key = Some Key_status, direction = asc\<rparr>) \<and>
   sorted_wrt (\<lambda>a b. p_method a \<le> p_method b)
     (sortItems items \<lparr>key = Some Key_method, direction = asc\<rparr>) \<and>
   sorted_wrt (\<lambda>a b. p_id b \<le> p_id a)
     (sortItems items \<lparr>key = Some Key_id, direction = desc\<rparr>) \<and>
   sorted_wrt (\<lambda>a b. p_memberId b \<le> p_memberId a)
     (sortItems items \<lparr>key = Some Key_memberId, direction = desc\<rparr>) \<and>
   sorted_wrt (\<lambda>a b. p_amount b \<le> p_amount a)
     (sortItems items \<lparr>key = Some Key_amount, direction = desc\<rparr>) \<and>
   sorted_wrt (\<lambda>a b. p_date b \<le> p_date a)
     (sortItems items \<lparr>key = Some Key_date, direction = desc\<rparr>) \<and>
   sorted_wrt (\<lambda>a b. p_type b \<le> p_type a)
     (sortItems items \<lparr>key = Some Key_type, direction = desc\<rparr>) \<and>
   sorted_wrt (\<lambda>a b. p_status b \<le> p_status a)
     (sortItems items \<lparr>key = Some Key_status, direction = desc\<rparr>) \<and>
   sorted_wrt (\<lambda>a b. p_method b \<le> p_method a)
     (sortItems items \<lparr>key = Some Key_method, direction = desc\<rparr>) \<and>
   pay_sortConfig (requestSort k s) =
     \<lparr>key = Some k,
      direction = (if key (pay_sortConfig s) = Some k \<and> direction (pay_sortConfig s) = asc
                   then desc else asc)\<rparr> \<and>
   pay_filteredPayments (requestSort k s) =
     sortItems (pay_filteredPayments s) (pay_sortConfig (requestSort k s))"
proof -
  have perm: "mset (sortItems items \<lparr>key = Some k, direction = d\<rparr>) = mset items"
    by (rule mset_sortItems)
  have ordered:
    "sorted_wrt (\<lambda>a b. if d = asc then \<not> lessAt k b a else \<not> lessAt k a b)
       (sortItems items \<lparr>key = Some k, direction = d\<rparr>)"
    using sortItems_sorted_asc[of k items] sortItems_sorted_desc[of k items]
    by (cases d) simp_all
  have a1: "sorted_wrt (\<lambda>a b. p_id a \<le> p_id b)
       (sortItems items \<lparr>key = Some Key_id, direction = asc\<rparr>)"
    using sortItems_sorted_asc[of Key_id items] by (simp add: not_less)
  have a2: "sorted_wrt (\<lambda>a b. p_memberId a \<le> p_memberId b)
       (sortItems items \<lparr>key = Some Key_memberId, direction = asc\<rparr>)"
    using sortItems_sorted_asc[of Key_memberId items] by (simp add: not_less)
  have a3: "sorted_wrt (\<lambda>a b. p_amount a \<le> p_amount b)
       (sortItems items \<lparr>key = Some Key_amount, direction = asc\<rparr>)"
    using sortItems_sorted_asc[of Key_amount items] by (simp add: not_less)
  have a4: "sorted_wrt (\<lambda>a b. p_date a \<le> p_date b)
       (sortItems items \<lparr>key = Some Key_date, direction = asc\<rparr>)"
    using sortItems_sorted_asc[of Key_date items] by (simp add: not_less)
  have a5: "sorted_wrt (\<lambda>a b. p_type a \<le> p_type b)
       (sortItems items \<lparr>key = Some Key_type, direction = asc\<rparr>)"
    using sortItems_sorted_asc[of Key_type items] by (simp add: not_less)
  have a6: "sorted_wrt (\<lambda>a b. p_status a \<le> p_status b)
       (sortItems items \<lparr>key = Some Key_status, direction = asc\<rparr>)"
    using sortItems_sorted_asc[of Key_status items] by (simp add: not_less)
  have a7: "sorted_wrt (\<lambda>a b. p_method a \<le> p_method b)
       (sortItems items \<lparr>key = Some Key_method, direction = asc\<rparr>)"
    using sortItems_sorted_asc[of Key_method items] by (simp add: not_less)
  have d1: "sorted_wrt (\<lambda>a b. p_id b \<le> p_id a)
       (sortItems items \<lparr>key = Some Key_id, direction = desc\<rparr>)"
    using sortItems_sorted_desc[of Key_id items] by (simp add: not_less)
  have d2: "sorted_wrt (\<lambda>a b. p_memberId b \<le> p_memberId a)
       (sortItems items \<lparr>key = Some Key_memberId, direction = desc\<rparr>)"
    using sortItems_sorted_desc[of Key_memberId items] by (simp add: not_less)
  have d3: "sorted_wrt (\<lambda>a b. p_amount b \<le> p_amount a)
       (sortItems items \<lparr>key = Some Key_amount, direction = desc\<rparr>)"
    using sortItems_sorted_desc[of Key_amount items] by (simp add: not_less)
  have d4: "sorted_wrt (\<lambda>a b. p_date b \<le> p_date a)
       (sortItems items \<lparr>key = Some Key_date, direction = desc\<rparr>)"
    using sortItems_sorted_desc[of Key_date items] by (simp add: not_less)
  have d5: "sorted_wrt (\<lambda>a b. p_type b \<le> p_type a)
       (sortItems items \<lparr>key = Some Key_type, direction = desc\<rparr>)"
    using sortItems_sorted_desc[of Key_type items] by (simp add: not_less)
  have d6: "sorted_wrt (\<lambda>a b. p_status b \<le> p_status a)
       (sortItems items \<lparr>key = Some Key_status, direction = desc\<rparr>)"
    using sortItems_sorted_desc[of Key_status items] by (simp add: not_less)
  have d7: "sorted_wrt (\<lambda>a b. p_method b \<le> p_method a)
       (sortItems items \<lparr>key = Some Key_method, direction = desc\<rparr>)"
    using sortItems_sorted_desc[of Key_method items] by (simp add: not_less)
  have cfg: "pay_sortConfig (requestSort k s) =
     \<lparr>key = Some k,
      direction = (if key (pay_sortConfig s) = Some k \<and> direction (pay_sortConfig s) = asc
                   then desc else asc)\<rparr>"
    by (simp add: requestSort_def Let_def)
  have shown: "pay_filteredPayments (requestSort k s) =
     sortItems (pay_filteredPayments s) (pay_sortConfig (requestSort k s))"
    by (simp add: requestSort_def Let_def)
  from perm ordered a1 a2 a3 a4 a5 a6 a7 d1 d2 d3 d4 d5 d6 d7 cfg shown
  show ?thesis by (intro conjI)
qed

text \<open>
  The sort on data: three payments that every field orders differently, sorted by each
  key, and the toggle of \<open>requestSort\<close> on a page that shows them by date, rising.
\<close>

theorem sortItems_sorted_permutation_requestSort_toggle_witness:
  "map p_id (sortItems examplePayments \<lparr>key = Some Key_id, direction = asc\<rparr>) = [1, 2, 3] \<and>
   map p_id (sortItems examplePayments \<lparr>key = Some Key_memberId, direction = asc\<rparr>) = [3, 2, 1] \<and>
   map p_id (sortItems examplePayments \<lparr>key = Some Key_amount, direction = asc\<rparr>) = [2, 1, 3] \<and>
   map p_id (sortItems examplePayments \<lparr>key = Some Key_date, direction = asc\<rparr>) = [3, 1, 2] \<and>
   map p_id (sortItems examplePayments \<lparr>key = Some Key_type, direction = asc\<rparr>) = [2, 1, 3] \<and>
   map p_id (sortItems examplePayments \<lparr>key = Some Key_status, direction = asc\<rparr>) = [3, 2, 1] \<and>
   map p_id (sortItems examplePayments \<lparr>key = Some Key_method, direction = asc\<rparr>) = [3, 1, 2] \<and>
   map p_id (sortItems examplePayments \<lparr>key = Some Key_id, direction = desc\<rparr>) = [3, 2, 1] \<and>
   map p_id (sortItems examplePayments \<lparr>key = Some Key_memberId, direction = desc\<rparr>) = [1, 2, 3] \<and>
   map p_id (sortItems examplePayments \<lparr>key = Some Key_amount, direction = desc\<rparr>) = [3, 1, 2] \<and>
   map p_id (sortItems examplePayments \<lparr>key = Some Key_date, direction = desc\<rparr>) = [2, 1, 3] \<and>
   map p_id (sortItems examplePayments \<lparr>key = Some Key_type, direction = desc\<rparr>) = [3, 1, 2] \<and>
   map p_id (sortItems examplePayments \<lparr>key = Some Key_status, direction = desc\<rparr>) = [1, 2, 3] \<and>
   map p_id (sortItems examplePayments \<lparr>key = Some Key_method, direction = desc\<rparr>) = [2, 1, 3] \<and>
   mset (sortItems examplePayments \<lparr>key = Some Key_date, direction = desc\<rparr>) =
     mset examplePayments \<and>
   pay_sortConfig (requestSort Key_date
      (examplePaymentsState examplePayments [] \<lparr>key = Some Key_date, direction = asc\<rparr>)) =
     \<lparr>key = Some Key_date, direction = desc\<rparr> \<and>
   pay_sortConfig (requestSort Key_amount
      (examplePaymentsState examplePayments [] \<lparr>key = Some Key_date, direction = asc\<rparr>)) =
     \<lparr>key = Some Key_amount, direction = asc\<rparr> \<and>
   pay_sortConfig (requestSort Key_date
      (examplePaymentsState examplePayments [] \<lparr>key = Some Key_date, direction = desc\<rparr>)) =
     \<lparr>key = Some Key_date, direction = asc\<rparr>"
proof -
  have ev:
    "map p_id (sortItems examplePayments \<lparr>key = Some Key_id, direction = asc\<rparr>) = [1, 2, 3]"
    "map p_id (sortItems examplePayments \<lparr>key = Some Key_memberId, direction = asc\<rparr>) = [3, 2, 1]"
    "map p_id (sortItems examplePayments \<lparr>key = Some Key_amount, direction = asc\<rparr>) = [2, 1, 3]"
    "map p_id (sortItems examplePayments \<lparr>key = Some Key_date, direction = asc\<rparr>) = [3, 1, 2]"
    "map p_id (sortItems examplePayments \<lparr>key = Some Key_type, direction = asc\<rparr>) = [2, 1, 3]"
    "map p_id (sortItems examplePayments \<lparr>key = Some Key_status, direction = asc\<rparr>) = [3, 2, 1]"
    "map p_id (sortItems examplePayments \<lparr>key = Some Key_method, direction = asc\<rparr>) = [3, 1, 2]"
    "map p_id (sortItems examplePayments \<lparr>key = Some Key_id, direction = desc\<rparr>) = [3, 2, 1]"
    "map p_id (sortItems examplePayments \<lparr>key = Some Key_memberId, direction = desc\<rparr>) = [1, 2, 3]"
    "map p_id (sortItems examplePayments \<lparr>key = Some Key_amount, direction = desc\<rparr>) = [3, 1, 2]"
    "map p_id (sortItems examplePayments \<lparr>key = Some Key_date, direction = desc\<rparr>) = [2, 1, 3]"
    "map p_id (sortItems examplePayments \<lparr>key = Some Key_type, direction = desc\<rparr>) = [3, 1, 2]"
    "map p_id (sortItems examplePayments \<lparr>key = Some Key_status, direction = desc\<rparr>) = [1, 2, 3]"
    "map p_id (sortItems examplePayments \<lparr>key = Some Key_method, direction = desc\<rparr>) = [2, 1, 3]"
    by (simp_all add: sortItems_def sortArray_def comparePayments_def examplePayments_def)
  let ?up = "examplePaymentsState examplePayments [] \<lparr>key = Some Key_date, direction = asc\<rparr>"
  let ?down = "examplePaymentsState examplePayments [] \<lparr>key = Some Key_date, direction = desc\<rparr>"
  have c: "pay_sortConfig ?up = \<lparr>key = Some Key_date, direction = asc\<rparr>"
    "pay_sortConfig ?down = \<lparr>key = Some Key_date, direction = desc\<rparr>"
    by (simp_all add: examplePaymentsState_def)
  have p: "mset (sortItems examplePayments \<lparr>key = Some Key_date, direction = desc\<rparr>) =
      mset examplePayments"
    using sortItems_sorted_permutation_requestSort_toggle[of examplePayments Key_date desc ?up]
    by blast
  have t1: "pay_sortConfig (requestSort Key_date ?up) = \<lparr>key = Some Key_date, direction = desc\<rparr>"
    using sortItems_sorted_permutation_requestSort_toggle[of examplePayments Key_date desc ?up]
    by (simp add: c)
  have t2: "pay_sortConfig (requestSort Key_amount ?up) = \<lparr>key = Some Key_amount, direction = asc\<rparr>"
    using sortItems_sorted_permutation_requestSort_toggle[of examplePayments Key_amount desc ?up]
    by (simp add: c)
  have t3: "pay_sortConfig (requestSort Key_date ?down) = \<lparr>key = Some Key_date, direction = asc\<rparr>"
    using sortItems_sorted_permutation_requestSort_toggle[of examplePayments Key_date desc ?down]
    by (simp add: c)
  from ev p t1 t2 t3 show ?thesis by (intro conjI)
qed

section \<open>Name resolution\<close>

lemma find_first_match:
  assumes "\<forall>u \<in> set pre. \<not> P u" and "P x"
  shows "find P (pre @ x # post) = Some x"
  using assms by (induction pre) simp_all

lemma find_no_match:
  assumes "\<forall>u \<in> set xs. \<not> P u"
  shows "find P xs = None"
  using assms by (induction xs) simp_all

text \<open>
  C6 (as amended). A numeric reference (a class's trainer id, a payment's member id) is
  resolved against the fetched list by a scan from the front: when the list has a record
  with that id, the result is the name of the first such record; when it has none, the
  result is a fixed placeholder, \<open>Unknown\<close> for a trainer and \<open>Unknown Member\<close> for a
  member.
\<close>

theorem name_resolution_first_match_or_placeholder:
  "(\<forall>pre t post. trainers = pre @ t # post \<and> (\<forall>u \<in> set pre. t_id u \<noteq> r) \<and> t_id t = r
       \<longrightarrow> getTrainerName trainers r = t_name t) \<and>
   ((\<forall>u \<in> set trainers. t_id u \<noteq> r) \<longrightarrow> getTrainerName trainers r = ''Unknown'') \<and>
   (\<forall>pre m post. members = pre @ m # post \<and> (\<forall>u \<in> set pre. m_id u \<noteq> r) \<and> m_id m = r
       \<longrightarrow> getMemberName members r = m_name m) \<and>
   ((\<forall>u \<in> set members. m_id u \<noteq> r) \<longrightarrow> getMemberName members r = ''Unknown Member'')"
proof (intro conjI allI impI)
  fix pre t post
  assume "trainers = pre @ t # post \<and> (\<forall>u \<in> set pre. t_id u \<noteq> r) \<and> t_id t = r"
  then show "getTrainerName trainers r = t_name t"
    using find_first_match[of pre "\<lambda>t. t_id t = r" t post] by (simp add: getTrainerName_def)
next
  assume "\<forall>u \<in> set trainers. t_id u \<noteq> r"
  then show "getTrainerName trainers r = ''Unknown''"
    using find_no_match[of trainers "\<lambda>t. t_id t = r"] by (simp add: getTrainerName_def)
next
  fix pre m post
  assume "members = pre @ m # post \<and> (\<forall>u \<in> set pre. m_id u \<noteq> r) \<and> m_id m = r"
  then show "getMemberName members r = m_name m"
    using find_first_match[of pre "\<lambda>m. m_id m = r" m post] by (simp add: getMemberName_def)
next
  assume "\<forall>u \<in> set members. m_id u \<noteq> r"
  then show "getMemberName members r = ''Unknown Member''"
    using find_no_match[of members "\<lambda>m. m_id m = r"] by (simp add: getMemberName_def)
qed

theorem name_resolution_witness:
  "getTrainerName [exampleTrainer 1 ''Ann'' [], exampleTrainer 2 ''Bob'' [],
                   exampleTrainer 2 ''Cy'' []] 2 = ''Bob'' \<and>
   getTrainerName [exampleTrainer 1 ''Ann'' []] 5 = ''Unknown'' \<and>
   getMemberName [exampleMember 4 ''Dee'' ''d@x.org'' ''555'' ''Active'',
                  exampleMember 4 ''Eve'' ''e@x.org'' ''556'' ''Active''] 4 = ''Dee'' \<and>
   getMemberName [] 4 = ''Unknown Member''"
proof -
  let ?ts = "[exampleTrainer 1 ''Ann'' [], exampleTrainer 2 ''Bob'' [], exampleTrainer 2 ''Cy'' []]"
  let ?ms = "[exampleMember 4 ''Dee'' ''d@x.org'' ''555'' ''Active'',
              exampleMember 4 ''Eve'' ''e@x.org'' ''556'' ''Active'']"
  have a: "getTrainerName ?ts 2 = t_name (exampleTrainer 2 ''Bob'' [])"
    using name_resolution_first_match_or_placeholder[of ?ts 2 "[]", THEN conjunct1, rule_format,
        of "[exampleTrainer 1 ''Ann'' []]" "exampleTrainer 2 ''Bob'' []" "[exampleTrainer 2 ''Cy'' []]"]
    by (simp add: exampleTrainer_def)
  have b: "getTrainerName [exampleTrainer 1 ''Ann'' []] 5 = ''Unknown''"
    using name_resolution_first_match_or_placeholder[of "[exampleTrainer 1 ''Ann'' []]" 5 "[]"]
    by (simp add: exampleTrainer_def)
  have c: "getMemberName ?ms 4 = m_name (exampleMember 4 ''Dee'' ''d@x.org'' ''555'' ''Active'')"
    using name_resolution_first_match_or_placeholder[of "[]" 4 ?ms, THEN conjunct2, THEN conjunct2,
        THEN conjunct1, rule_format,
        of "[]" "exampleMember 4 ''Dee'' ''d@x.org'' ''555'' ''Active''"
           "[exampleMember 4 ''Eve'' ''e@x.org'' ''556'' ''Active'']"]
    by (simp add: exampleMember_def)
  have d: "getMemberName [] 4 = ''Unknown Member''"
    using name_resolution_first_match_or_placeholder[of "[]" 4 "[]"] by simp
  from a b c d show ?thesis by (simp add: exampleTrainer_def exampleMember_def)
qed

text \<open>
  The placeholder is not the one word \<open>Unknown\<close> for both resolvers: a member id that
  is not in the list, or a lookup in the empty list, resolves to \<open>Unknown Member\<close>.
\<close>

theorem name_resolution_placeholder_counterexample:
  "getMemberName [] 4 = ''Unknown Member'' \<and>
   getMemberName [] 4 \<noteq> ''Unknown'' \<and>
   getMemberName [exampleMember 1 ''Ann'' ''a@x.org'' ''555-0001'' ''Active''] 4 \<noteq> ''Unknown''"
  by (simp add: getMemberName_def exampleMember_def)

section \<open>Mirroring a successful call into the local collection\<close>

lemma count_list_filter_keep: "P x \<Longrightarrow> count_list (filter P xs) x = count_list xs x"
  by (induction xs) auto

text \<open>
  C3. When the delete call is confirmed and succeeds, the local collection becomes the
  previous collection without the records whose id is the deleted id: no record with that
  id is left, what is left is a subsequence of the previous collection (nothing added,
  nothing reordered), and every record with another id is there as many times as before.
  This holds for members and for trainers.
\<close>

theorem delete_removes_exactly_the_id:
  "mem_members (fst (handleDelete True (Resolved ()) i s)) =
     filter (\<lambda>m. m_id m \<noteq> i) (mem_members s) \<and>
   (\<forall>m \<in> set (mem_members (fst (handleDelete True (Resolved ()) i s))). m_id m \<noteq> i) \<and>
   subseq (mem_members (fst (handleDelete True (Resolved ()) i s))) (mem_members s) \<and>
   (\<forall>m. m_id m \<noteq> i \<longrightarrow>
      count_list (mem_members (fst (handleDelete True (Resolved ()) i s))) m =
      count_list (mem_members s) m) \<and>
   trn_trainers (fst (handleTrainerDelete True (Resolved ()) i t)) =
     filter (\<lambda>x. t_id x \<noteq> i) (trn_trainers t) \<and>
   (\<forall>x \<in> set (trn_trainers (fst (handleTrainerDelete True (Resolved ()) i t))). t_id x \<noteq> i) \<and>
   subseq (trn_trainers (fst (handleTrainerDelete True (Resolved ()) i t))) (trn_trainers t) \<and>
   (\<forall>x. t_id x \<noteq> i \<longrightarrow>
      count_list (trn_trainers (fst (handleTrainerDelete True (Resolved ()) i t))) x =
      count_list (trn_trainers t) x)"
proof -
  have m: "mem_members (fst (handleDelete True (Resolved ()) i s)) =
     filter (\<lambda>m. m_id m \<noteq> i) (mem_members s)"
    by (simp add: handleDelete_def)
  have t: "trn_trainers (fst (handleTrainerDelete True (Resolved ()) i t)) =
     filter (\<lambda>x. t_id x \<noteq> i) (trn_trainers t)"
    by (simp add: handleTrainerDelete_def)
  show ?thesis
    unfolding m t by (simp add: count_list_filter_keep)
qed

theorem delete_removes_exactly_the_id_witness:
  "mem_members (fst (handleDelete True (Resolved ()) 2
      (exampleMembersState
         [exampleMember 1 ''Ann'' ''a@x.org'' ''555-0001'' ''Active'',
          exampleMember 2 ''Bob'' ''b@x.org'' ''555-0002'' ''Active'',
          exampleMember 3 ''Cy'' ''c@x.org'' ''555-0003'' ''Expired'',
          exampleMember 2 ''Dee'' ''d@x.org'' ''555-0004'' ''Active'']
         (exampleMemberForm None [] ''Active'') False))) =
     [exampleMember 1 ''Ann'' ''a@x.org'' ''555-0001'' ''Active'',
      exampleMember 3 ''Cy'' ''c@x.org'' ''555-0003'' ''Expired''] \<and>
   trn_trainers (fst (handleTrainerDelete True (Resolved ()) 1
      (exampleTrainersState [exampleTrainer 1 ''Ann'' [], exampleTrainer 2 ''Bob'' []]
         (exampleTrainerForm None []) False))) =
     [exampleTrainer 2 ''Bob'' []]"
  using delete_removes_exactly_the_id[of 2
      "exampleMembersState
         [exampleMember 1 ''Ann'' ''a@x.org'' ''555-0001'' ''Active'',
          exampleMember 2 ''Bob'' ''b@x.org'' ''555-0002'' ''Active'',
          exampleMember 3 ''Cy'' ''c@x.org'' ''555-0003'' ''Expired'',
          exampleMember 2 ''Dee'' ''d@x.org'' ''555-0004'' ''Active'']
         (exampleMemberForm None [] ''Active'') False"
      "exampleTrainersState [exampleTrainer 1 ''Ann'' [], exampleTrainer 2 ''Bob'' []]
         (exampleTrainerForm None []) False"]
    delete_removes_exactly_the_id[of 1
      "exampleMembersState [] (exampleMemberForm None [] ''Active'') False"
      "exampleTrainersState [exampleTrainer 1 ''Ann'' [], exampleTrainer 2 ''Bob'' []]
         (exampleTrainerForm None []) False"]
  by (simp add: exampleMembersState_def exampleTrainersState_def exampleMember_def
      exampleTrainer_def)

lemma asMember_fields:
  "m_id (asMember i f) = i \<and> m_name (asMember i f) = m_name f \<and>
   m_email (asMember i f) = m_email f \<and> m_phone (asMember i f) = m_phone f \<and>
   m_joinDate (asMember i f) = m_joinDate f \<and>
   m_membershipType (asMember i f) = m_membershipType f \<and>
   m_membershipStatus (asMember i f) = m_membershipStatus f \<and>
   m_membershipEnd (asMember i f) = m_membershipEnd f \<and>
   m_emergencyContact (asMember i f) = m_emergencyContact f \<and>
   m_age (asMember i f) = m_age f \<and> m_gender (asMember i f) = m_gender f \<and>
   m_goals (asMember i f) = m_goals f"
  by (simp add: asMember_def)

text \<open>
  C4. When an edit form that carries the id \<open>i\<close> is submitted and the update call
  succeeds, the collection keeps its length, every position that held a record with id
  \<open>i\<close> now holds the form's contents (the record with id \<open>i\<close> and with the name,
  email, phone and every other field of the form), and every position that held a record
  with another id holds the same record as before. This holds for members and for
  trainers.
\<close>

theorem update_replaces_matching_id_only:
  assumes "mem_isEditing s" and "m_id (mem_memberForm s) = Some i"
    and "trn_isEditing t" and "t_id (trn_trainerForm t) = Some j"
  shows
  "length (mem_members (fst (handleSubmit ef (Resolved d) s))) = length (mem_members s) \<and>
   (\<forall>n < length (mem_members s).
      mem_members (fst (handleSubmit ef (Resolved d) s)) ! n =
        (if m_id (mem_members s ! n) = i
         then \<lparr>m_id = i,
               m_name = m_name (mem_memberForm s),
               m_email = m_email (mem_memberForm s),
               m_phone = m_phone (mem_memberForm s),
               m_joinDate = m_joinDate (mem_memberForm s),
               m_membershipType = m_membershipType (mem_memberForm s),
               m_membershipStatus = m_membershipStatus (mem_memberForm s),
               m_membershipEnd = m_membershipEnd (mem_memberForm s),
               m_emergencyContact = m_emergencyContact (mem_memberForm s),
               m_age = m_age (mem_memberForm s),
               m_gender = m_gender (mem_memberForm s),
               m_goals = m_goals (mem_memberForm s)\<rparr>
         else mem_members s ! n)) \<and>
   length (trn_trainers (fst (handleTrainerSubmit et (Resolved e) t))) = length (trn_trainers t) \<and>
   (\<forall>n < length (trn_trainers t).
      trn_trainers (fst (handleTrainerSubmit et (Resolved e) t)) ! n =
        (if t_id (trn_trainers t ! n) = j
         then \<lparr>t_id = j,
               t_name = t_name (trn_trainerForm t),
               t_email = t_email (trn_trainerForm t),
               t_phone = t_phone (trn_trainerForm t),
               t_hireDate = t_hireDate (trn_trainerForm t),
               t_specialties = t_specialties (trn_trainerForm t),
               t_certifications = t_certifications (trn_trainerForm t),
               t_bio = t_bio (trn_trainerForm t),
               t_schedule = t_schedule (trn_trainerForm t),
               t_imageUrl = t_imageUrl (trn_trainerForm t)\<rparr>
         else trn_trainers t ! n))"
  using assms
  by (auto simp: handleSubmit_def handleTrainerSubmit_def closeModal_def closeTrainerModal_def
      updateMember_def updateTrainer_def asMember_def asTrainer_def Let_def)

text \<open>
  On data: Bob, id 2, is edited into Bobby, expired, with the form's other fields; Ann
  stays. Trainer Ann, id 1, is edited into Anna with the form's fields; Bob stays.
\<close>

theorem update_replaces_matching_id_only_witness:
  "mem_members (fst (handleSubmit (emptyMemberForm ''2024-05-01'' ''2024-05-31'')
      (Resolved (exampleMember 2 ''Bobby'' ''b@x.org'' ''555-0002'' ''Expired''))
      (exampleMembersState
         [exampleMember 1 ''Ann'' ''a@x.org'' ''555-0001'' ''Active'',
          exampleMember 2 ''Bob'' ''b@x.org'' ''555-0002'' ''Active'']
         \<lparr>m_id = Some 2, m_name = ''Bobby'', m_email = ''bobby@x.org'',
          m_phone = ''555-0199'', m_joinDate = ''2024-01-15'',
          m_membershipType = ''Premium'', m_membershipStatus = ''Expired'',
          m_membershipEnd = ''2025-01-15'', m_emergencyContact = ''555-0100'',
          m_age = 31, m_gender = ''Male'', m_goals = ''Endurance''\<rparr> True))) =
     [\<lparr>m_id = 1, m_name = ''Ann'', m_email = ''a@x.org'', m_phone = ''555-0001'',
       m_joinDate = ''2024-01-15'', m_membershipType = ''Standard'',
       m_membershipStatus = ''Active'', m_membershipEnd = ''2025-01-15'',
       m_emergencyContact = ''555-0100'', m_age = 30, m_gender = ''Female'',
       m_goals = ''Strength''\<rparr>,
      \<lparr>m_id = 2, m_name = ''Bobby'', m_email = ''bobby@x.org'', m_phone = ''555-0199'',
       m_joinDate = ''2024-01-15'', m_membershipType = ''Premium'',
       m_membershipStatus = ''Expired'', m_membershipEnd = ''2025-01-15'',
       m_emergencyContact = ''555-0100'', m_age = 31, m_gender = ''Male'',
       m_goals = ''Endurance''\<rparr>] \<and>
   trn_trainers (fst (handleTrainerSubmit (emptyTrainerForm ''2024-05-01'')
      (Resolved (exampleTrainer 1 ''Anna'' []))
      (exampleTrainersState [exampleTrainer 1 ''Ann'' [], exampleTrainer 2 ''Bob'' [''Boxing'']]
         \<lparr>t_id = Some 1, t_name = ''Anna'', t_email = ''anna@x.org'', t_phone = ''555-0102'',
          t_hireDate = ''2023-07-01'', t_specialties = [''Yoga'', ''Pilates''],
          t_certifications = [''ACE''], t_bio = ''Coach'', t_schedule = ''Sat-Sun'',
          t_imageUrl = ''anna.png''\<rparr> True))) =
     [\<lparr>t_id = 1, t_name = ''Anna'', t_email = ''anna@x.org'', t_phone = ''555-0102'',
       t_hireDate = ''2023-07-01'', t_specialties = [''Yoga'', ''Pilates''],
       t_certifications = [''ACE''], t_bio = ''Coach'', t_schedule = ''Sat-Sun'',
       t_imageUrl = ''anna.png''\<rparr>,
      \<lparr>t_id = 2, t_name = ''Bob'', t_email = ''coach@example.com'', t_phone = ''555-0101'',
       t_hireDate = ''2023-06-01'', t_specialties = [''Boxing''], t_certifications = [],
       t_bio = [], t_schedule = ''Mon-Fri'', t_imageUrl = []\<rparr>]"
proof -
  let ?mf = "\<lparr>m_id = Some (2::rat), m_name = ''Bobby'', m_email = ''bobby@x.org'',
          m_phone = ''555-0199'', m_joinDate = ''2024-01-15'',
          m_membershipType = ''Premium'', m_membershipStatus = ''Expired'',
          m_membershipEnd = ''2025-01-15'', m_emergencyContact = ''555-0100'',
          m_age = 31, m_gender = ''Male'', m_goals = ''Endurance''\<rparr>"
  let ?tf = "\<lparr>t_id = Some (1::rat), t_name = ''Anna'', t_email = ''anna@x.org'',
          t_phone = ''555-0102'',
          t_hireDate = ''2023-07-01'', t_specialties = [''Yoga'', ''Pilates''],
          t_certifications = [''ACE''], t_bio = ''Coach'', t_schedule = ''Sat-Sun'',
          t_imageUrl = ''anna.png''\<rparr>"
  let ?s = "exampleMembersState
         [exampleMember 1 ''Ann'' ''a@x.org'' ''555-0001'' ''Active'',
          exampleMember 2 ''Bob'' ''b@x.org'' ''555-0002'' ''Active''] ?mf True"
  let ?t = "exampleTrainersState
         [exampleTrainer 1 ''Ann'' [], exampleTrainer 2 ''Bob'' [''Boxing'']] ?tf True"
  let ?s' = "fst (handleSubmit (emptyMemberForm ''2024-05-01'' ''2024-05-31'')
      (Resolved (exampleMember 2 ''Bobby'' ''b@x.org'' ''555-0002'' ''Expired'')) ?s)"
  let ?t' = "fst (handleTrainerSubmit (emptyTrainerForm ''2024-05-01'')
      (Resolved (exampleTrainer 1 ''Anna'' [])) ?t)"
  have pre: "mem_isEditing ?s" "m_id (mem_memberForm ?s) = Some 2"
    "trn_isEditing ?t" "t_id (trn_trainerForm ?t) = Some 1"
    by (simp_all add: exampleMembersState_def exampleTrainersState_def)
  note u = update_replaces_matching_id_only[OF pre,
      of "emptyMemberForm ''2024-05-01'' ''2024-05-31''"
         "exampleMember 2 ''Bobby'' ''b@x.org'' ''555-0002'' ''Expired''"
         "emptyTrainerForm ''2024-05-01''" "exampleTrainer 1 ''Anna'' []"]
  have l: "0 < length (mem_members ?s)" "1 < length (mem_members ?s)"
    "0 < length (trn_trainers ?t)" "1 < length (trn_trainers ?t)"
    "length (mem_members ?s) = 2" "length (trn_trainers ?t) = 2"
    by (simp_all add: exampleMembersState_def exampleTrainersState_def)
  have lm: "length (mem_members ?s') = 2" using u[THEN conjunct1] l(5) by simp
  have lt: "length (trn_trainers ?t') = 2"
    using u[THEN conjunct2, THEN conjunct2, THEN conjunct1] l(6) by simp
  have m0: "mem_members ?s' ! 0 =
      \<lparr>m_id = 1, m_name = ''Ann'', m_email = ''a@x.org'', m_phone = ''555-0001'',
       m_joinDate = ''2024-01-15'', m_membershipType = ''Standard'',
       m_membershipStatus = ''Active'', m_membershipEnd = ''2025-01-15'',
       m_emergencyContact = ''555-0100'', m_age = 30, m_gender = ''Female'',
       m_goals = ''Strength''\<rparr>"
    unfolding u[THEN conjunct2, THEN conjunct1, rule_format, OF l(1)]
    by (simp add: exampleMembersState_def exampleMember_def)
  have m1: "mem_members ?s' ! 1 =
      \<lparr>m_id = 2, m_name = ''Bobby'', m_email = ''bobby@x.org'', m_phone = ''555-0199'',
       m_joinDate = ''2024-01-15'', m_membershipType = ''Premium'',
       m_membershipStatus = ''Expired'', m_membershipEnd = ''2025-01-15'',
       m_emergencyContact = ''555-0100'', m_age = 31, m_gender = ''Male'',
       m_goals = ''Endurance''\<rparr>"
    unfolding u[THEN conjunct2, THEN conjunct1, rule_format, OF l(2)]
    by (simp add: exampleMembersState_def exampleMember_def)
  have t0: "trn_trainers ?t' ! 0 =
      \<lparr>t_id = 1, t_name = ''Anna'', t_email = ''anna@x.org'', t_phone = ''555-0102'',
       t_hireDate = ''2023-07-01'', t_specialties = [''Yoga'', ''Pilates''],
       t_certifications = [''ACE''], t_bio = ''Coach'', t_schedule = ''Sat-Sun'',
       t_imageUrl = ''anna.png''\<rparr>"
    unfolding u[THEN conjunct2, THEN conjunct2, THEN conjunct2, rule_format, OF l(3)]
    by (simp add: exampleTrainersState_def exampleTrainer_def)
  have t1: "trn_trainers ?t' ! 1 =
      \<lparr>t_id = 2, t_name = ''Bob'', t_email = ''coach@example.com'', t_phone = ''555-0101'',
       t_hireDate = ''2023-06-01'', t_specialties = [''Boxing''], t_certifications = [],
       t_bio = [], t_schedule = ''Mon-Fri'', t_imageUrl = []\<rparr>"
    unfolding u[THEN conjunct2, THEN conjunct2, THEN conjunct2, rule_format, OF l(4)]
    by (simp add: exampleTrainersState_def exampleTrainer_def)
  have two: "\<And>xs a b. length xs = 2 \<Longrightarrow> xs ! 0 = a \<Longrightarrow> xs ! 1 = b \<Longrightarrow> xs = [a, b]"
  proof -
    fix xs :: "'a list" and a b
    assume "length xs = 2" and "xs ! 0 = a" and "xs ! 1 = b"
    then show "xs = [a, b]"
      by (cases xs; cases "tl xs") auto
  qed
  from two[OF lm m0 m1] two[OF lt t0 t1] show ?thesis by (intro conjI)
qed

text \<open>
  C7. Create appends the record the backend answered with to the local collection and
  compares its id with nothing: when the answer carries the id of a record that is
  already in the collection, the collection after the create holds two records with one
  id. Distinct ids are therefore not an invariant of create, for members or for trainers.
\<close>

theorem create_appends_without_id_check:
  assumes "\<not> mem_isEditing s" and "m \<in> set (mem_members s)" and "m_id r = m_id m"
    and "\<not> trn_isEditing t" and "x \<in> set (trn_trainers t)" and "t_id q = t_id x"
  shows
  "mem_members (fst (handleSubmit ef (Resolved r) s)) = mem_members s @ [r] \<and>
   \<not> distinct (map m_id (mem_members (fst (handleSubmit ef (Resolved r) s)))) \<and>
   trn_trainers (fst (handleTrainerSubmit et (Resolved q) t)) = trn_trainers t @ [q] \<and>
   \<not> distinct (map t_id (trn_trainers (fst (handleTrainerSubmit et (Resolved q) t))))"
proof -
  have a: "mem_members (fst (handleSubmit ef (Resolved r) s)) = mem_members s @ [r]"
    using assms(1) by (simp add: handleSubmit_def closeModal_def Let_def)
  have b: "trn_trainers (fst (handleTrainerSubmit et (Resolved q) t)) = trn_trainers t @ [q]"
    using assms(4) by (simp add: handleTrainerSubmit_def closeTrainerModal_def Let_def)
  have c: "m_id r \<in> m_id ` set (mem_members s)" using assms(2,3) by force
  have d: "t_id q \<in> t_id ` set (trn_trainers t)" using assms(5,6) by force
  show ?thesis unfolding a b using c d by simp
qed

theorem create_appends_without_id_check_witness:
  "distinct (map m_id (mem_members
      (exampleMembersState [exampleMember 1 ''Ann'' ''a@x.org'' ''555-0001'' ''Active'']
         (exampleMemberForm None ''Bea'' ''Active'') False))) \<and>
   mem_members (fst (handleSubmit (emptyMemberForm ''2024-05-01'' ''2024-05-31'')
      (Resolved (exampleMember 1 ''Bea'' ''new@example.com'' ''555-0199'' ''Active''))
      (exampleMembersState [exampleMember 1 ''Ann'' ''a@x.org'' ''555-0001'' ''Active'']
         (exampleMemberForm None ''Bea'' ''Active'') False))) =
     [exampleMember 1 ''Ann'' ''a@x.org'' ''555-0001'' ''Active'',
      exampleMember 1 ''Bea'' ''new@example.com'' ''555-0199'' ''Active''] \<and>
   \<not> distinct (map m_id (mem_members (fst (handleSubmit
      (emptyMemberForm ''2024-05-01'' ''2024-05-31'')
      (Resolved (exampleMember 1 ''Bea'' ''new@example.com'' ''555-0199'' ''Active''))
      (exampleMembersState [exampleMember 1 ''Ann'' ''a@x.org'' ''555-0001'' ''Active'']
         (exampleMemberForm None ''Bea'' ''Active'') False))))) \<and>
   distinct (map t_id (trn_trainers
      (exampleTrainersState [exampleTrainer 3 ''Cy'' []] (exampleTrainerForm None ''Di'') False))) \<and>
   \<not> distinct (map t_id (trn_trainers (fst (handleTrainerSubmit (emptyTrainerForm ''2024-05-01'')
      (Resolved (exampleTrainer 3 ''Di'' [''Yoga'']))
      (exampleTrainersState [exampleTrainer 3 ''Cy'' []] (exampleTrainerForm None ''Di'') False)))))"
proof -
  let ?s = "exampleMembersState [exampleMember 1 ''Ann'' ''a@x.org'' ''555-0001'' ''Active'']
         (exampleMemberForm None ''Bea'' ''Active'') False"
  let ?t = "exampleTrainersState [exampleTrainer 3 ''Cy'' []] (exampleTrainerForm None ''Di'') False"
  have pre: "\<not> mem_isEditing ?s"
    "exampleMember 1 ''Ann'' ''a@x.org'' ''555-0001'' ''Active'' \<in> set (mem_members ?s)"
    "m_id (exampleMember 1 ''Bea'' ''new@example.com'' ''555-0199'' ''Active'') =
     m_id (exampleMember 1 ''Ann'' ''a@x.org'' ''555-0001'' ''Active'')"
    "\<not> trn_isEditing ?t"
    "exampleTrainer 3 ''Cy'' [] \<in> set (trn_trainers ?t)"
    "t_id (exampleTrainer 3 ''Di'' [''Yoga'']) = t_id (exampleTrainer 3 ''Cy'' [])"
    by (simp_all add: exampleMembersState_def exampleTrainersState_def exampleMember_def
        exampleTrainer_def)
  note u = create_appends_without_id_check[OF pre,
      of "emptyMemberForm ''2024-05-01'' ''2024-05-31''" "emptyTrainerForm ''2024-05-01''"]
  have before: "distinct (map m_id (mem_members ?s))" "distinct (map t_id (trn_trainers ?t))"
    by (simp_all add: exampleMembersState_def exampleTrainersState_def)
  have ms: "mem_members ?s @ [exampleMember 1 ''Bea'' ''new@example.com'' ''555-0199'' ''Active''] =
    [exampleMember 1 ''Ann'' ''a@x.org'' ''555-0001'' ''Active'',
     exampleMember 1 ''Bea'' ''new@example.com'' ''555-0199'' ''Active'']"
    by (simp add: exampleMembersState_def)
  have a: "mem_members (fst (handleSubmit (emptyMemberForm ''2024-05-01'' ''2024-05-31'')
      (Resolved (exampleMember 1 ''Bea'' ''new@example.com'' ''555-0199'' ''Active'')) ?s)) =
     [exampleMember 1 ''Ann'' ''a@x.org'' ''555-0001'' ''Active'',
      exampleMember 1 ''Bea'' ''new@example.com'' ''555-0199'' ''Active'']"
    using u[THEN conjunct1] unfolding ms .
  from before a u[THEN conjunct2, THEN conjunct1] u[THEN conjunct2, THEN conjunct2, THEN conjunct2]
  show ?thesis by blast
qed

section \<open>Failed calls\<close>

text \<open>
  On the Members, Trainers, Schedule and Payments pages a rejected call leaves the
  collections as they were, raises one error toast, and the trace holds the request (or
  the requests of the one \<open>Promise.all\<close>) once: nothing is sent again.
\<close>

lemma members_failure_keeps_collection_and_notifies:
  "mem_members (fst (fetchMembers Rejected s)) = mem_members s \<and>
   snd (fetchMembers Rejected s) =
     [Api (GET ''/members''), ConsoleError ''Error fetching members:'',
      ToastError ''Failed to load members''] \<and>
   fst (handleSubmit ef Rejected s) = s \<and>
   filter isApi (snd (handleSubmit ef Rejected s)) =
     [Api (if mem_isEditing s
           then PUT ''/members/'' (m_id (mem_memberForm s)) (mem_memberForm s)
           else POST ''/members'' (mem_memberForm s))] \<and>
   filter isToastError (snd (handleSubmit ef Rejected s)) =
     [ToastError (if mem_isEditing s then ''Failed to update member''
                  else ''Failed to add member'')] \<and>
   fst (handleDelete True Rejected i s) = s \<and>
   snd (handleDelete True Rejected i s) =
     [Api (DELETE ''/members/'' i), ConsoleError ''Error deleting member:'',
      ToastError ''Failed to delete member'']"
  by (simp add: fetchMembers_def handleSubmit_def handleDelete_def Let_def)

lemma trainers_failure_keeps_collection_and_notifies:
  "trn_trainers (fst (fetchTrainers Rejected t)) = trn_trainers t \<and>
   snd (fetchTrainers Rejected t) =
     [Api (GET ''/trainers''), ConsoleError ''Error fetching trainers:'',
      ToastError ''Failed to load trainers''] \<and>
   fst (handleTrainerSubmit et Rejected t) = t \<and>
   filter isApi (snd (handleTrainerSubmit et Rejected t)) =
     [Api (if trn_isEditing t
           then PUT ''/trainers/'' (t_id (trn_trainerForm t)) (trn_trainerForm t)
           else POST ''/trainers'' (trn_trainerForm t))] \<and>
   filter isToastError (snd (handleTrainerSubmit et Rejected t)) =
     [ToastError (if trn_isEditing t then ''Failed to update trainer''
                  else ''Failed to add trainer'')] \<and>
   fst (handleTrainerDelete True Rejected i t) = t \<and>
   snd (handleTrainerDelete True Rejected i t) =
     [Api (DELETE ''/trainers/'' i), ConsoleError ''Error deleting trainer:'',
      ToastError ''Failed to delete trainer'']"
  by (simp add: fetchTrainers_def handleTrainerSubmit_def handleTrainerDelete_def Let_def)

lemma schedule_payments_failure_keeps_collection_and_notifies:
  "sch_classes (fst (fetchScheduleData Rejected c)) = sch_classes c \<and>
   sch_trainers (fst (fetchScheduleData Rejected c)) = sch_trainers c \<and>
   snd (fetchScheduleData Rejected c) =
     [Api (GET ''/classes''), Api (GET ''/trainers''),
      ConsoleError ''Error fetching schedule data:'', ToastError ''Failed to load schedule''] \<and>
   pay_payments (fst (fetchPaymentsData Rejected p)) = pay_payments p \<and>
   pay_members (fst (fetchPaymentsData Rejected p)) = pay_members p \<and>
   pay_filteredPayments (fst (fetchPaymentsData Rejected p)) = pay_filteredPayments p \<and>
   snd (fetchPaymentsData Rejected p) =
     [Api (GET ''/payments''), Api (GET ''/members''),
      ConsoleError ''Error fetching payments data:'', ToastError ''Failed to load payments'']"
  by (simp add: fetchScheduleData_def fetchPaymentsData_def)

text \<open>
  C5. A failed REST call must leave the collection as it was, raise an error
  notification and not be retried. The Dashboard's fetch departs from this: when its
  call is rejected it keeps the statistics and the panel and sends nothing again, but
  it writes to the console only, and its trace holds no error toast.
\<close>

theorem dashboard_fetch_failure_raises_no_toast:
  "dash_stats (fst (fetchDashboardData isRecent Rejected s)) = dash_stats s \<and>
   dash_activeMembers (fst (fetchDashboardData isRecent Rejected s)) = dash_activeMembers s \<and>
   snd (fetchDashboardData isRecent Rejected s) =
     [Api (GET ''/members''), Api (GET ''/trainers''), Api (GET ''/classes''),
      Api (GET ''/payments''), ConsoleError ''Error fetching dashboard data:''] \<and>
   filter isToastError (snd (fetchDashboardData isRecent Rejected s)) = []"
  by (simp add: fetchDashboardData_def)

section \<open>Dashboard\<close>

text \<open>
  C8. After a successful fetch, the Active Members panel of the Dashboard holds at most
  five members, each with membershipStatus \<open>Active\<close>: they are the first five active
  members of the fetched list, in fetched order. The active-member statistic is the
  number of positions of the whole fetched list that hold a member with membershipStatus
  \<open>Active\<close>.
\<close>

theorem dashboard_active_members_panel_and_count:
  "length (dash_activeMembers
      (fst (fetchDashboardData isRecent (Resolved (ms, ts, cs, ps)) s))) \<le> 5 \<and>
   (\<forall>m \<in> set (dash_activeMembers
      (fst (fetchDashboardData isRecent (Resolved (ms, ts, cs, ps)) s))).
        m_membershipStatus m = ''Active'') \<and>
   dash_activeMembers (fst (fetchDashboardData isRecent (Resolved (ms, ts, cs, ps)) s)) =
     take 5 (filter (\<lambda>m. m_membershipStatus m = ''Active'') ms) \<and>
   subseq (dash_activeMembers (fst (fetchDashboardData isRecent (Resolved (ms, ts, cs, ps)) s))) ms \<and>
   activeMembers (dash_stats (fst (fetchDashboardData isRecent (Resolved (ms, ts, cs, ps)) s))) =
     card {n. n < length ms \<and> m_membershipStatus (ms ! n) = ''Active''}"
proof -
  let ?act = "filter (\<lambda>m. m_membershipStatus m = ''Active'') ms"
  have panel: "dash_activeMembers (fst (fetchDashboardData isRecent (Resolved (ms, ts, cs, ps)) s)) =
     take 5 ?act"
    by (simp add: fetchDashboardData_def Let_def)
  have count: "activeMembers (dash_stats
      (fst (fetchDashboardData isRecent (Resolved (ms, ts, cs, ps)) s))) = length ?act"
    by (simp add: fetchDashboardData_def Let_def)
  have sub: "subseq (take 5 ?act) ms"
    by (rule subseq_order.trans[OF sublist_imp_subseq[OF prefix_imp_sublist[OF take_is_prefix]]
          subseq_filter_left])
  have act: "\<forall>m \<in> set (take 5 ?act). m_membershipStatus m = ''Active''"
    using set_take_subset[of 5 ?act] by auto
  have len: "length (take 5 ?act) \<le> 5" by simp
  have card: "length ?act = card {n. n < length ms \<and> m_membershipStatus (ms ! n) = ''Active''}"
    by (rule length_filter_conv_card)
  show ?thesis
    unfolding panel count using len act sub card by blast
qed

theorem dashboard_active_members_panel_and_count_witness:
  "map m_id (dash_activeMembers (fst (fetchDashboardData (\<lambda>p. True)
      (Resolved ([exampleMember 1 ''A'' ''a@x.org'' ''1'' ''Active'',
                  exampleMember 2 ''B'' ''b@x.org'' ''2'' ''Expired'',
                  exampleMember 3 ''C'' ''c@x.org'' ''3'' ''Active'',
                  exampleMember 4 ''D'' ''d@x.org'' ''4'' ''Active'',
                  exampleMember 5 ''E'' ''e@x.org'' ''5'' ''Active'',
                  exampleMember 6 ''F'' ''f@x.org'' ''6'' ''Active'',
                  exampleMember 7 ''G'' ''g@x.org'' ''7'' ''Active''], [], [], []))
      initialDashboardState))) = [1, 3, 4, 5, 6] \<and>
   activeMembers (dash_stats (fst (fetchDashboardData (\<lambda>p. True)
      (Resolved ([exampleMember 1 ''A'' ''a@x.org'' ''1'' ''Active'',
                  exampleMember 2 ''B'' ''b@x.org'' ''2'' ''Expired'',
                  exampleMember 3 ''C'' ''c@x.org'' ''3'' ''Active'',
                  exampleMember 4 ''D'' ''d@x.org'' ''4'' ''Active'',
                  exampleMember 5 ''E'' ''e@x.org'' ''5'' ''Active'',
                  exampleMember 6 ''F'' ''f@x.org'' ''6'' ''Active'',
                  exampleMember 7 ''G'' ''g@x.org'' ''7'' ''Active''], [], [], []))
      initialDashboardState))) = 6"
proof -
  let ?ms = "[exampleMember 1 ''A'' ''a@x.org'' ''1'' ''Active'',
                  exampleMember 2 ''B'' ''b@x.org'' ''2'' ''Expired'',
                  exampleMember 3 ''C'' ''c@x.org'' ''3'' ''Active'',
                  exampleMember 4 ''D'' ''d@x.org'' ''4'' ''Active'',
                  exampleMember 5 ''E'' ''e@x.org'' ''5'' ''Active'',
                  exampleMember 6 ''F'' ''f@x.org'' ''6'' ''Active'',
                  exampleMember 7 ''G'' ''g@x.org'' ''7'' ''Active'']"
  note u = dashboard_active_members_panel_and_count[of "\<lambda>p. True" ?ms "[]" "[]" "[]"
      initialDashboardState]
  have f: "map m_id (take 5 (filter (\<lambda>m. m_membershipStatus m = ''Active'') ?ms)) = [1, 3, 4, 5, 6]"
    by (simp add: exampleMember_def)
  have a: "map m_id (dash_activeMembers (fst (fetchDashboardData (\<lambda>p. True)
      (Resolved (?ms, [], [], [])) initialDashboardState))) = [1, 3, 4, 5, 6]"
    using u[THEN conjunct2, THEN conjunct2, THEN conjunct1] f by simp
  have c: "card {n. n < length ?ms \<and> m_membershipStatus (?ms ! n) = ''Active''} =
      length (filter (\<lambda>m. m_membershipStatus m = ''Active'') ?ms)"
    by (rule length_filter_conv_card[symmetric])
  have b: "activeMembers (dash_stats (fst (fetchDashboardData (\<lambda>p. True)
      (Resolved (?ms, [], [], [])) initialDashboardState))) = 6"
    using u[THEN conjunct2, THEN conjunct2, THEN conjunct2, THEN conjunct2] unfolding c
    by (simp add: exampleMember_def)
  from a b show ?thesis by blast
qed

section \<open>Time formatting\<close>











section \<open>Enrollment percentage\<close>

lemma of_int_less_powi_bitlen:
  assumes "0 < a"
  shows "(of_int a :: rat) < 2 powi bitlen a" and "(2::rat) powi (bitlen a - 1) \<le> of_int a"
proof -
  from bitlen_bounds[OF assms] have lo: "2 ^ nat (bitlen a - 1) \<le> a" and hi: "a < 2 ^ nat (bitlen a)"
    by auto
  have pos: "1 \<le> bitlen a" using assms bitlen_eq_zero_iff[of a] bitlen_nonneg[of a] by linarith
  have "(of_int a :: rat) < of_int (2 ^ nat (bitlen a))" using hi by (simp only: of_int_less_iff)
  then show "(of_int a :: rat) < 2 powi bitlen a"
    using pos by (simp add: power_int_def)
  have "(of_int (2 ^ nat (bitlen a - 1)) :: rat) \<le> of_int a" using lo by (simp only: of_int_le_iff)
  then show "(2::rat) powi (bitlen a - 1) \<le> of_int a"
    using pos by (simp add: power_int_def)
qed

lemma floorLog2_bounds:
  assumes "0 < x"
  shows "2 powi floorLog2 x \<le> x" and "x < 2 powi (floorLog2 x + 1)"
proof -
  obtain a b where q: "quotient_of x = (a, b)" by (cases "quotient_of x")
  have b: "0 < b" using quotient_of_denom_pos[OF q] .
  have x: "x = of_int a / of_int b" using quotient_of_div[OF q] .
  have a: "0 < a" using assms b x by (simp add: zero_less_divide_iff)
  let ?d = "bitlen a - bitlen b"
  have bpos: "(0::rat) < of_int b" using b by simp
  have lo: "2 powi (?d - 1) \<le> x"
  proof -
    have "(2::rat) powi (?d - 1) * of_int b \<le> 2 powi (?d - 1) * 2 powi bitlen b"
      using of_int_less_powi_bitlen(1)[OF b] by (intro mult_left_mono) auto
    also have "\<dots> = 2 powi (bitlen a - 1)"
      by (simp flip: power_int_add)
    also have "\<dots> \<le> of_int a" using of_int_less_powi_bitlen(2)[OF a] .
    finally show ?thesis using bpos unfolding x by (simp add: pos_le_divide_eq)
  qed
  have hi: "x < 2 powi (?d + 1)"
  proof -
    have "(of_int a :: rat) < 2 powi bitlen a" using of_int_less_powi_bitlen(1)[OF a] .
    also have "\<dots> = 2 powi (?d + 1) * 2 powi (bitlen b - 1)"
      by (simp flip: power_int_add)
    also have "\<dots> \<le> 2 powi (?d + 1) * of_int b"
      using of_int_less_powi_bitlen(2)[OF b] by (intro mult_left_mono) auto
    finally show ?thesis using bpos unfolding x by (simp add: pos_divide_less_eq)
  qed
  have fl: "floorLog2 x = (if 2 powi ?d \<le> x then ?d else ?d - 1)"
    by (simp add: floorLog2_def q Let_def)
  show "2 powi floorLog2 x \<le> x" using lo by (simp add: fl)
  show "x < 2 powi (floorLog2 x + 1)" using hi by (auto simp: fl not_le)
qed

lemma roundHalfEven_error: "\<bar>of_int (roundHalfEven x) - x\<bar> \<le> 1 / 2"
proof -
  have "of_int \<lfloor>x\<rfloor> \<le> x" "x < of_int \<lfloor>x\<rfloor> + 1" by linarith+
  then show ?thesis
    by (auto simp: roundHalfEven_def Let_def abs_le_iff)
qed

lemma toDouble_normal:
  assumes lo: "2 powi (- 1022) \<le> \<bar>x\<bar>" and hi: "\<bar>x\<bar> < 2 powi 1023"
  shows "\<exists>y. toDouble x = Finite y \<and> \<bar>y - x\<bar> \<le> \<bar>x\<bar> / 2 ^ 53"
proof -
  have x0: "x \<noteq> 0" using lo by auto
  then have ax: "0 < \<bar>x\<bar>" by simp
  define k where "k = floorLog2 \<bar>x\<bar>"
  have k1: "2 powi k \<le> \<bar>x\<bar>" and k2: "\<bar>x\<bar> < 2 powi (k + 1)"
    using floorLog2_bounds[OF ax] by (simp_all add: k_def)
  have "(2::rat) powi (- 1022) < 2 powi (k + 1)" using lo k2 by linarith
  then have klo: "- 1022 \<le> k"
    using power_int_increasing[of "k + 1" "- 1022" "2::rat"] by (cases "- 1022 \<le> k") auto
  have "(2::rat) powi k < 2 powi 1023" using k1 hi by linarith
  then have khi: "k \<le> 1022"
    using power_int_increasing[of 1023 k "2::rat"] by (cases "k \<le> 1022") auto
  define p where "p = k - 52"
  have p: "max (k - 52) (- 1074) = p" using klo by (simp add: p_def)
  define m where "m = roundHalfEven (\<bar>x\<bar> / 2 powi p)"
  define y where "y = (of_int m :: rat) * 2 powi p"
  have pp: "(0::rat) < 2 powi p" by simp
  have "\<bar>of_int m - \<bar>x\<bar> / 2 powi p\<bar> \<le> 1 / 2"
    unfolding m_def by (rule roundHalfEven_error)
  then have "\<bar>of_int m - \<bar>x\<bar> / 2 powi p\<bar> * 2 powi p \<le> 1 / 2 * 2 powi p"
    using pp by (intro mult_right_mono) auto
  moreover have "\<bar>of_int m - \<bar>x\<bar> / 2 powi p\<bar> * 2 powi p = \<bar>y - \<bar>x\<bar>\<bar>"
  proof -
    have "\<bar>of_int m - \<bar>x\<bar> / 2 powi p\<bar> * 2 powi p = \<bar>(of_int m - \<bar>x\<bar> / 2 powi p) * 2 powi p\<bar>"
      using pp by (simp add: abs_mult)
    also have "(of_int m - \<bar>x\<bar> / 2 powi p) * 2 powi p = y - \<bar>x\<bar>"
      using pp by (simp add: y_def algebra_simps)
    finally show ?thesis .
  qed
  ultimately have err: "\<bar>y - \<bar>x\<bar>\<bar> \<le> 2 powi p / 2" by simp
  have half: "(2::rat) powi p / 2 = 2 powi k / 2 ^ 53"
  proof -
    have "(2::rat) powi k = 2 powi (p + 52)" by (simp add: p_def)
    also have "\<dots> = 2 powi p * 2 powi 52" by (rule power_int_add) simp
    finally show ?thesis by simp
  qed
  have rel: "\<bar>y - \<bar>x\<bar>\<bar> \<le> \<bar>x\<bar> / 2 ^ 53"
  proof -
    have "\<bar>y - \<bar>x\<bar>\<bar> \<le> 2 powi k / 2 ^ 53" using err half by simp
    also have "\<dots> \<le> \<bar>x\<bar> / 2 ^ 53" using k1 by (simp add: divide_right_mono)
    finally show ?thesis .
  qed
  have ynon: "y < 2 powi 1024"
  proof -
    have "y \<le> \<bar>x\<bar> + \<bar>x\<bar> / 2 ^ 53" using rel by linarith
    also have "\<dots> \<le> \<bar>x\<bar> + \<bar>x\<bar>" using ax by simp
    also have "\<dots> < 2 powi 1023 + 2 powi 1023" using hi by linarith
    also have "\<dots> = 2 powi 1024" by (simp add: power_int_def)
    finally show ?thesis .
  qed
  have td: "toDouble x = Finite (sgn x * y)"
    using x0 ynon by (simp add: toDouble_def Let_def p k_def[symmetric] m_def[symmetric] y_def[symmetric])
  have "\<bar>sgn x * y - x\<bar> = \<bar>y - \<bar>x\<bar>\<bar>"
  proof (cases "0 < x")
    case True
    then show ?thesis by simp
  next
    case False
    then have neg: "x < 0" using x0 by simp
    then have "sgn x * y - x = - (y - \<bar>x\<bar>)" by simp
    then show ?thesis by (simp only: abs_minus_cancel)
  qed
  then have "\<bar>sgn x * y - x\<bar> \<le> \<bar>x\<bar> / 2 ^ 53" using rel by simp
  with td show ?thesis by blast
qed


lemma round_to_nearest:
  fixes v w :: rat and C N :: int
  assumes C: "0 < C" and v: "2 * of_int C * v = of_int N"
    and close: "\<bar>w - v\<bar> < 1 / (2 * of_int C)"
  shows "\<bar>of_int \<lfloor>w + 1 / 2\<rfloor> - v\<bar> \<le> 1 / 2"
proof -
  define r where "r = \<lfloor>w + 1 / 2\<rfloor>"
  have r1: "of_int r \<le> w + 1 / 2" and r2: "w + 1 / 2 < of_int r + 1"
    unfolding r_def by linarith+
  have Cq: "(0::rat) < 2 * of_int C" using C by simp
  have cl: "\<bar>w - v\<bar> * (2 * of_int C) < 1"
    using close Cq by (simp add: pos_less_divide_eq)
  have lower: "of_int r - 1 / 2 \<le> v"
  proof (rule ccontr)
    assume "\<not> of_int r - 1 / 2 \<le> v"
    then have "v < of_int r - 1 / 2" by simp
    then have "2 * of_int C * v < 2 * of_int C * (of_int r - 1 / 2)"
      using Cq by (simp only: mult_less_cancel_left_pos)
    then have "(of_int N :: rat) < of_int ((2 * r - 1) * C)"
      unfolding v by (simp add: algebra_simps)
    then have "N < (2 * r - 1) * C" by (simp only: of_int_less_iff)
    then have "N + 1 \<le> (2 * r - 1) * C" by simp
    then have "(of_int (N + 1) :: rat) \<le> of_int ((2 * r - 1) * C)" by (simp only: of_int_le_iff)
    then have "2 * of_int C * v + 1 \<le> 2 * of_int C * (of_int r - 1 / 2)"
      unfolding v by (simp add: algebra_simps)
    moreover have "2 * of_int C * (of_int r - 1 / 2) \<le> 2 * of_int C * w"
    proof -
      have "of_int r - 1 / 2 \<le> w" using r1 by linarith
      then show ?thesis using Cq by (intro mult_left_mono) auto
    qed
    ultimately have "1 \<le> (w - v) * (2 * of_int C)" by (simp add: algebra_simps)
    moreover have "(w - v) * (2 * of_int C) \<le> \<bar>w - v\<bar> * (2 * of_int C)"
      using Cq by (intro mult_right_mono) auto
    ultimately show False using cl by linarith
  qed
  have upper: "v \<le> of_int r + 1 / 2"
  proof (rule ccontr)
    assume "\<not> v \<le> of_int r + 1 / 2"
    then have "of_int r + 1 / 2 < v" by simp
    then have "2 * of_int C * (of_int r + 1 / 2) < 2 * of_int C * v"
      using Cq by (simp only: mult_less_cancel_left_pos)
    then have "(of_int ((2 * r + 1) * C) :: rat) < of_int N"
      unfolding v by (simp add: algebra_simps)
    then have "(2 * r + 1) * C < N" by (simp only: of_int_less_iff)
    then have "(2 * r + 1) * C + 1 \<le> N" by simp
    then have "(of_int ((2 * r + 1) * C + 1) :: rat) \<le> of_int N" by (simp only: of_int_le_iff)
    then have "2 * of_int C * (of_int r + 1 / 2) + 1 \<le> 2 * of_int C * v"
      unfolding v by (simp add: algebra_simps)
    moreover have "2 * of_int C * w \<le> 2 * of_int C * (of_int r + 1 / 2)"
    proof -
      have "w \<le> of_int r + 1 / 2" using r2 by linarith
      then show ?thesis using Cq by (intro mult_left_mono) auto
    qed
    ultimately have "1 \<le> (v - w) * (2 * of_int C)" by (simp add: algebra_simps)
    moreover have "(v - w) * (2 * of_int C) \<le> \<bar>w - v\<bar> * (2 * of_int C)"
      using Cq by (intro mult_right_mono) auto
    ultimately show False using cl by linarith
  qed
  from lower upper show ?thesis unfolding r_def[symmetric] by linarith
qed


lemma enrollmentPercentage_zero_capacity:
  "enrollmentPercentage (Finite x) (Finite 0) =
     (if x = 0 then NaN else if 0 < x then PosInfinity else NegInfinity)"
  by (simp add: enrollmentPercentage_def)

lemma enrollmentPercentage_within_half:
  fixes e c :: int
  assumes c0: "c \<noteq> 0" and cb: "\<bar>c\<bar> \<le> 2 ^ 53" and eb: "\<bar>e\<bar> \<le> 2 ^ 44"
  shows "\<exists>r::int. enrollmentPercentage (Finite (of_int e)) (Finite (of_int c)) = Finite (of_int r) \<and>
           \<bar>(of_int r :: rat) - 100 * of_int e / of_int c\<bar> \<le> 1 / 2"
proof (cases "e = 0")
  case True
  have half: "\<lfloor>1 / 2 :: rat\<rfloor> = 0" by (simp add: floor_eq_iff)
  have "enrollmentPercentage (Finite 0) (Finite (of_int c)) = Finite (of_int 0)"
    using c0 half by (simp add: enrollmentPercentage_def toDouble_def)
  then show ?thesis using True by (intro exI[of _ 0]) simp
next
  case False
  define x1 :: rat where "x1 = of_int e / of_int c"
  define v :: rat where "v = 100 * of_int e / of_int c"
  have cq: "(0::rat) < \<bar>of_int c\<bar>" using c0 by simp
  have eq1: "(1::rat) \<le> \<bar>of_int e\<bar>"
  proof -
    have "1 \<le> \<bar>e\<bar>" using False by simp
    then have "(of_int 1 :: rat) \<le> of_int \<bar>e\<bar>" by (simp only: of_int_le_iff)
    then show ?thesis by simp
  qed
  have eq2: "\<bar>of_int e :: rat\<bar> \<le> 2 ^ 44"
  proof -
    have "(of_int \<bar>e\<bar> :: rat) \<le> of_int (2 ^ 44)" using eb by (simp only: of_int_le_iff)
    then show ?thesis by simp
  qed
  have cq1: "(1::rat) \<le> \<bar>of_int c\<bar>"
  proof -
    have "1 \<le> \<bar>c\<bar>" using c0 by simp
    then have "(of_int 1 :: rat) \<le> of_int \<bar>c\<bar>" by (simp only: of_int_le_iff)
    then show ?thesis by simp
  qed
  have cq2: "\<bar>of_int c :: rat\<bar> \<le> 2 ^ 53"
  proof -
    have "(of_int \<bar>c\<bar> :: rat) \<le> of_int (2 ^ 53)" using cb by (simp only: of_int_le_iff)
    then show ?thesis by simp
  qed
  have ax1: "\<bar>x1\<bar> = \<bar>of_int e\<bar> / \<bar>of_int c\<bar>" by (simp add: x1_def)
  have x1c: "\<bar>x1\<bar> * \<bar>of_int c\<bar> = \<bar>of_int e\<bar>" using cq by (simp add: ax1)
  have x1lo: "1 / 2 ^ 53 \<le> \<bar>x1\<bar>"
  proof -
    have "1 / 2 ^ 53 \<le> 1 / \<bar>of_int c :: rat\<bar>" using cq cq2 by (intro divide_left_mono) auto
    also have "\<dots> \<le> \<bar>of_int e\<bar> / \<bar>of_int c\<bar>" using eq1 cq by (intro divide_right_mono) auto
    finally show ?thesis by (simp add: ax1)
  qed
  have x1hi: "\<bar>x1\<bar> \<le> 2 ^ 44"
  proof -
    have "\<bar>of_int e :: rat\<bar> / \<bar>of_int c\<bar> \<le> \<bar>of_int e\<bar> / 1"
      using cq1 by (intro divide_left_mono) auto
    then show ?thesis using eq2 by (simp add: ax1)
  qed
  define tiny :: rat where "tiny = 2 powi (- 1022)"
  define huge :: rat where "huge = 2 powi 1023"
  have small: "tiny \<le> 1 / 18014398509481984"
  proof -
    have "(2::rat) powi (- 1022) \<le> 2 powi (- 54)" by (rule power_int_increasing) auto
    then show ?thesis by (simp add: tiny_def power_int_minus divide_simps)
  qed
  have big: "4503599627370496 < huge"
  proof -
    have "(2::rat) powi 52 < 2 powi 1023" by (rule power_int_strict_increasing) auto
    then show ?thesis by (simp add: huge_def)
  qed
  have x1lo': "1 / 9007199254740992 \<le> \<bar>x1\<bar>" using x1lo by simp
  have x1hi': "\<bar>x1\<bar> \<le> 17592186044416" using x1hi by simp
  have n1: "tiny \<le> \<bar>x1\<bar>" using small x1lo' by linarith
  have n2: "\<bar>x1\<bar> < huge" using big x1hi' by linarith
  obtain q where q: "toDouble x1 = Finite q" and qerr: "\<bar>q - x1\<bar> \<le> \<bar>x1\<bar> / 2 ^ 53"
    using toDouble_normal[OF n1[unfolded tiny_def] n2[unfolded huge_def]] by blast
  have qerr': "\<bar>q - x1\<bar> \<le> \<bar>x1\<bar> / 9007199254740992" using qerr by simp
  have qhi: "\<bar>q\<bar> \<le> \<bar>x1\<bar> + \<bar>x1\<bar> / 9007199254740992" using qerr' by linarith
  have qlo: "\<bar>x1\<bar> - \<bar>x1\<bar> / 9007199254740992 \<le> \<bar>q\<bar>" using qerr' by linarith
  define x2 where "x2 = q * 100"
  have ax2: "\<bar>x2\<bar> = 100 * \<bar>q\<bar>" by (simp add: x2_def abs_mult)
  have m1: "tiny \<le> \<bar>x2\<bar>" using small x1lo' qlo unfolding ax2 by linarith
  have m2: "\<bar>x2\<bar> < huge" using big x1hi' qhi unfolding ax2 by linarith
  obtain w where w: "toDouble x2 = Finite w" and werr: "\<bar>w - x2\<bar> \<le> \<bar>x2\<bar> / 2 ^ 53"
    using toDouble_normal[OF m1[unfolded tiny_def] m2[unfolded huge_def]] by blast
  have werr': "\<bar>w - x2\<bar> \<le> 100 * \<bar>q\<bar> / 9007199254740992" using werr by (simp add: ax2)
  have vx: "v = 100 * x1" by (simp add: v_def x1_def)
  have dist: "\<bar>w - v\<bar> \<le> \<bar>x1\<bar> * (100 * (2 + 1 / 2 ^ 53) / 2 ^ 53)"
  proof -
    define a b d1 d2 where "a = \<bar>x1\<bar>" and "b = \<bar>q\<bar>" and "d1 = \<bar>q - x1\<bar>" and "d2 = \<bar>w - x2\<bar>"
    have f1: "d2 \<le> 100 * b / 9007199254740992" using werr' by (simp add: d2_def b_def)
    have f2: "d1 \<le> a / 9007199254740992" using qerr' by (simp add: d1_def a_def)
    have f3: "b \<le> a + a / 9007199254740992" using qhi by (simp add: a_def b_def)
    have "w - v = (w - x2) + 100 * (q - x1)" by (simp add: vx x2_def)
    then have "\<bar>w - v\<bar> \<le> \<bar>w - x2\<bar> + \<bar>100 * (q - x1)\<bar>"
      by (simp only: abs_triangle_ineq)
    also have "\<bar>100 * (q - x1)\<bar> = 100 * \<bar>q - x1\<bar>"
      using abs_mult[of "100::rat" "q - x1"] by (simp only: abs_numeral)
    finally have "\<bar>w - v\<bar> \<le> d2 + 100 * d1" by (simp add: d1_def d2_def)
    also have "\<dots> \<le> a * (100 * (2 + 1 / 9007199254740992) / 9007199254740992)"
      using f1 f2 f3 by (simp add: algebra_simps)
    finally show ?thesis by (simp add: a_def)
  qed
  have close: "\<bar>w - v\<bar> < 1 / (2 * of_int \<bar>c\<bar>)"
  proof -
    have "\<bar>w - v\<bar> * (2 * \<bar>of_int c\<bar>) \<le>
        \<bar>x1\<bar> * (100 * (2 + 1 / 2 ^ 53) / 2 ^ 53) * (2 * \<bar>of_int c\<bar>)"
      using dist cq by (intro mult_right_mono) auto
    also have "\<dots> = \<bar>of_int e\<bar> * (200 * (2 + 1 / 2 ^ 53) / 2 ^ 53)"
      using x1c by (simp add: algebra_simps)
    also have "\<dots> \<le> 2 ^ 44 * (200 * (2 + 1 / 2 ^ 53) / 2 ^ 53)"
      using eq2 by (intro mult_right_mono) auto
    also have "\<dots> < 1" by simp
    finally have "\<bar>w - v\<bar> * (2 * \<bar>of_int c\<bar>) < 1" .
    then show ?thesis using cq by (simp add: pos_less_divide_eq)
  qed
  have mult: "2 * of_int \<bar>c\<bar> * v = of_int (200 * e * sgn c)"
    using c0 by (cases "0 < c") (simp_all add: v_def)
  have cpos: "0 < \<bar>c\<bar>" using c0 by simp
  have near: "\<bar>of_int \<lfloor>w + 1 / 2\<rfloor> - v\<bar> \<le> 1 / 2"
    by (rule round_to_nearest[OF cpos mult close])
  have "enrollmentPercentage (Finite (of_int e)) (Finite (of_int c)) =
      Finite (of_int \<lfloor>w + 1 / 2\<rfloor>)"
    using c0 q w by (simp add: enrollmentPercentage_def x1_def[symmetric] x2_def[symmetric])
  with near show ?thesis unfolding v_def by blast
qed


lemma floorLog2_unique:
  assumes "2 powi k \<le> x" and "x < 2 powi (k + 1)"
  shows "floorLog2 x = k"
proof -
  have "(0::rat) < 2 powi k" by simp
  then have x: "0 < x" using assms(1) by linarith
  note b = floorLog2_bounds[OF x]
  have "\<not> floorLog2 x < k"
  proof
    assume "floorLog2 x < k"
    then have "(2::rat) powi (floorLog2 x + 1) \<le> 2 powi k" by (intro power_int_increasing) auto
    then show False using b(2) assms(1) by linarith
  qed
  moreover have "\<not> k < floorLog2 x"
  proof
    assume "k < floorLog2 x"
    then have "(2::rat) powi (k + 1) \<le> 2 powi floorLog2 x" by (intro power_int_increasing) auto
    then show False using b(1) assms(2) by linarith
  qed
  ultimately show ?thesis by linarith
qed

lemma toDouble_eval:
  assumes lo: "2 powi k \<le> x" and hi: "x < 2 powi (k + 1)" and k1: "- 1022 \<le> k" and k2: "k \<le> 1022"
  shows "toDouble x = Finite (of_int (roundHalfEven (x / 2 powi (k - 52))) * 2 powi (k - 52))"
proof -
  have "(0::rat) < 2 powi k" by simp
  then have x: "0 < x" using lo by linarith
  have fl: "floorLog2 x = k" using floorLog2_unique[OF lo hi] .
  have p: "max (k - 52) (- 1074) = k - 52" using k1 by simp
  have "(2::rat) powi (- 1022) \<le> 2 powi k" using k1 by (intro power_int_increasing) auto
  then have n1: "2 powi (- 1022) \<le> \<bar>x\<bar>" using lo x by simp
  have "(2::rat) powi (k + 1) \<le> 2 powi 1023" using k2 by (intro power_int_increasing) auto
  then have n2: "\<bar>x\<bar> < 2 powi 1023" using hi x by simp
  obtain y where y: "toDouble x = Finite y" using toDouble_normal[OF n1 n2] by blast
  show ?thesis
    using y x by (simp add: toDouble_def Let_def fl p split: if_splits)
qed

text \<open>
  C10 (as amended). For a class whose enrolled count and capacity are integers, with the
  capacity not zero and of magnitude at most \<open>2 ^ 53\<close> and the enrolled count of magnitude
  at most \<open>2 ^ 44\<close>, \<open>enrollmentPercentage\<close> returns an integer that is within one half
  of the exact value \<open>100 * enrolled / capacity\<close>: a nearest integer, and either
  neighbour when the exact value lies halfway. The division is not guarded: with a zero
  capacity the result is \<open>NaN\<close> or an infinity, never an integer.
\<close>

theorem enrollmentPercentage_nearest_integer:
  fixes e c :: int
  shows "(c \<noteq> 0 \<and> \<bar>c\<bar> \<le> 2 ^ 53 \<and> \<bar>e\<bar> \<le> 2 ^ 44 \<longrightarrow>
            (\<exists>r::int. enrollmentPercentage (Finite (of_int e)) (Finite (of_int c)) =
                         Finite (of_int r) \<and>
                       \<bar>(of_int r :: rat) - 100 * of_int e / of_int c\<bar> \<le> 1 / 2)) \<and>
         enrollmentPercentage (Finite x) (Finite 0) \<in> {NaN, PosInfinity, NegInfinity}"
  using enrollmentPercentage_within_half[of c e]
  by (simp add: enrollmentPercentage_zero_capacity)

text \<open>
  On data: 29 enrolled of 200 is exactly 14.5 per cent; the quotient is rounded below
  0.145, the product below 14.5, and the result is 14.
\<close>

theorem enrollmentPercentage_nearest_integer_witness:
  "(\<exists>r::int. enrollmentPercentage (Finite (of_int 29)) (Finite (of_int 200)) = Finite (of_int r) \<and>
      \<bar>(of_int r :: rat) - 100 * of_int 29 / of_int 200\<bar> \<le> 1 / 2) \<and>
   enrollmentPercentage (Finite 29) (Finite 200) = Finite 14 \<and>
   enrollmentPercentage (Finite 29) (Finite 0) = PosInfinity"
proof -
  have a: "\<exists>r::int. enrollmentPercentage (Finite (of_int 29)) (Finite (of_int 200)) =
        Finite (of_int r) \<and> \<bar>(of_int r :: rat) - 100 * of_int 29 / of_int 200\<bar> \<le> 1 / 2"
    using enrollmentPercentage_nearest_integer[of 200 29 0] by simp
  have r1: "roundHalfEven (29 / 200 * 36028797018963968) = 5224175567749775"
    and r2: "roundHalfEven (5224175567749775 / 36028797018963968 * 100 * 562949953421312) =
        8162774324609023"
    by code_simp+
  have d1: "toDouble (29 / 200) = Finite (5224175567749775 / 36028797018963968)"
    using toDouble_eval[of "- 3" "29 / 200"] r1 by (simp add: power_int_minus)
  have d2: "toDouble (5224175567749775 / 36028797018963968 * 100) =
      Finite (8162774324609023 / 562949953421312)"
    using toDouble_eval[of 3 "5224175567749775 / 36028797018963968 * 100"] r2
    by (simp add: power_int_minus)
  have f: "\<lfloor>(8162774324609023 / 562949953421312 :: rat) + 1 / 2\<rfloor> = 14"
    by (simp add: floor_eq_iff)
  have b: "enrollmentPercentage (Finite 29) (Finite 200) = Finite 14"
    using d1 d2 f by (simp add: enrollmentPercentage_def)
  have c: "enrollmentPercentage (Finite 29) (Finite 0) = PosInfinity"
    by (simp add: enrollmentPercentage_zero_capacity)
  from a b c show ?thesis by blast
qed

text \<open>
  The claim as first stated, for every enrolled number, fails at two inputs with capacity
  1. For the integer 9007199254740994 the product with 100 is rounded to a double 56 away
  from the exact value. For the double nearest to 8.045 the exact percentage is a little
  below 804.5, the product is rounded to 804.5, and the result is 805.
\<close>

theorem enrollmentPercentage_counterexample:
  "enrollmentPercentage (Finite 9007199254740994) (Finite 1) = Finite 900719925474099456 \<and>
   \<not> \<bar>(900719925474099456 :: rat) - 100 * 9007199254740994 / 1\<bar> \<le> 1 / 2 \<and>
   enrollmentPercentage (Finite (4528932375274455 / 562949953421312)) (Finite 1) = Finite 805 \<and>
   \<not> \<bar>(805 :: rat) - 100 * (4528932375274455 / 562949953421312) / 1\<bar> \<le> 1 / 2"
proof -
  have r1: "roundHalfEven (9007199254740994 / 2) = 4503599627370497"
    and r2: "roundHalfEven (900719925474099400 / 128) = 7036874417766402"
    and r3: "roundHalfEven (4528932375274455 / 562949953421312 * 562949953421312) = 4528932375274455"
    and r4: "roundHalfEven (4528932375274455 / 562949953421312 * 100 * 8796093022208) = 7076456836366336"
    by code_simp+
  have d1: "toDouble 9007199254740994 = Finite 9007199254740994"
    using toDouble_eval[of 53 9007199254740994] r1 by simp
  have d2: "toDouble 900719925474099400 = Finite 900719925474099456"
    using toDouble_eval[of 59 900719925474099400] r2 by simp
  have d3: "toDouble (4528932375274455 / 562949953421312) = Finite (4528932375274455 / 562949953421312)"
    using toDouble_eval[of 3 "4528932375274455 / 562949953421312"] r3
    by (simp add: power_int_minus)
  have d4: "toDouble (4528932375274455 / 562949953421312 * 100) = Finite (1609 / 2)"
    using toDouble_eval[of 9 "4528932375274455 / 562949953421312 * 100"] r4
    by (simp add: power_int_minus)
  have f1: "\<lfloor>(900719925474099456 :: rat) + 1 / 2\<rfloor> = 900719925474099456"
    and f2: "\<lfloor>(1609 / 2 :: rat) + 1 / 2\<rfloor> = 805"
    by (simp_all add: floor_eq_iff)
  have a: "enrollmentPercentage (Finite 9007199254740994) (Finite 1) = Finite 900719925474099456"
    using d1 d2 f1 by (simp add: enrollmentPercentage_def)
  have b: "enrollmentPercentage (Finite (4528932375274455 / 562949953421312)) (Finite 1) = Finite 805"
    using d3 d4 f2 by (simp add: enrollmentPercentage_def)
  from a b show ?thesis by simp
qed

end
